theory Spec2Isabelle
  imports Complex_Main
begin

section \<open>Exceptions\<close>

text \<open>
  The Python exceptions that \<^verbatim>\<open>train.py\<close> raises itself or lets escape from the
  calls it makes. A computation that can raise returns \<open>error + 'a\<close> with \<open>Inl\<close>
  for the exception.
\<close>

datatype error =
    ValueError "string list"
  | ZeroDivisionError
  | AttributeError string
  | TypeError string
  | OSError string
  | FileNotFoundError string
  | KeyError string
  | RuntimeError string
  | ProcessRaisedException

section \<open>The adapter-disabling proxy (\<^verbatim>\<open>ModelWithDisabledAdapter\<close>)\<close>

subsection \<open>The wrapped model\<close>

text \<open>
  What the proxy touches of the wrapped model: the flag \<^verbatim>\<open>model.training\<close>, and the
  state of the adapter layers that \<^verbatim>\<open>model.disable_adapter()\<close> switches. Everything
  else a call may read or change is the field \<open>payload\<close>.
\<close>

record 's model =
  training :: bool
  adapter_disabled :: bool
  payload :: 's

text \<open>\<^verbatim>\<open>model.eval()\<close> and \<^verbatim>\<open>model.train()\<close> as the proxy calls them.\<close>

definition eval_mode :: "'s model \<Rightarrow> 's model" where
  "eval_mode m = m\<lparr>training := False\<rparr>"

definition train_mode :: "'s model \<Rightarrow> 's model" where
  "train_mode m = m\<lparr>training := True\<rparr>"

text \<open>
  Modelled from the spec: the context manager \<^verbatim>\<open>model.disable_adapter()\<close> belongs to
  the adapter library and is not part of \<^verbatim>\<open>train.py\<close>. Entering the scope suppresses
  the adapter's contribution; leaving it restores the suppression to the state found on
  entry. \<open>disable_adapter_enter\<close> returns that state next to the model.
\<close>

definition disable_adapter_enter :: "'s model \<Rightarrow> bool \<times> 's model" where
  "disable_adapter_enter m = (adapter_disabled m, m\<lparr>adapter_disabled := True\<rparr>)"

definition disable_adapter_exit :: "bool \<Rightarrow> 's model \<Rightarrow> 's model" where
  "disable_adapter_exit prior m = m\<lparr>adapter_disabled := prior\<rparr>"

subsection \<open>Attributes\<close>

text \<open>
  A callable attribute (a bound function of the model) takes the call's arguments and the model's
  current state, and returns a result or raises, leaving the model in a new state.
  \<open>getattr_model\<close> is \<^verbatim>\<open>getattr(model, name)\<close> on a table of attributes, which may
  depend on the state (\<^verbatim>\<open>model.training\<close> does).
\<close>

type_synonym ('s, 'a, 'r) bound_method = "'a \<Rightarrow> 's model \<Rightarrow> (error + 'r) \<times> 's model"

datatype ('s, 'a, 'r) attr = Callable "('s, 'a, 'r) bound_method" | Plain 'r

type_synonym ('s, 'a, 'r) attrs = "'s model \<Rightarrow> string \<Rightarrow> ('s, 'a, 'r) attr option"

definition getattr_model ::
  "('s, 'a, 'r) attrs \<Rightarrow> 's model \<Rightarrow> string \<Rightarrow> error + ('s, 'a, 'r) attr" where
  "getattr_model tbl m name =
     (case tbl m name of None \<Rightarrow> Inl (AttributeError name) | Some a \<Rightarrow> Inr a)"

subsection \<open>The proxy\<close>

text \<open>
  \<open>newfunc attr\<close> is the closure that \<^verbatim>\<open>__getattribute__\<close> returns for a callable
  attribute (lines 32 to 39). The \<^verbatim>\<open>with\<close> statement leaves the scope on both
  paths; when \<open>attr\<close> raises, the exception propagates from there and the lines after
  the \<^verbatim>\<open>with\<close> block do not run.
\<close>

definition newfunc :: "('s, 'a, 'r) bound_method \<Rightarrow> ('s, 'a, 'r) bound_method" where
  "newfunc attr args m =
     (let was_training = training m;
          m1 = eval_mode m;
          (prior, m2) = disable_adapter_enter m1;
          (result, m3) = attr args m2;
          m4 = disable_adapter_exit prior m3
      in case result of
           Inl e \<Rightarrow> (Inl e, m4)
         | Inr r \<Rightarrow> (Inr r, if was_training then train_mode m4 else m4))"

text \<open>
  \<^verbatim>\<open>__getattribute__\<close> (lines 26 to 42): fetching an attribute does not touch the
  model; a callable one comes back wrapped, any other as it is.
\<close>

definition getattribute ::
  "('s, 'a, 'r) attrs \<Rightarrow> string \<Rightarrow> 's model \<Rightarrow> (error + ('s, 'a, 'r) attr) \<times> 's model" where
  "getattribute tbl name m =
     (case getattr_model tbl m name of
        Inl e \<Rightarrow> (Inl e, m)
      | Inr (Callable attr) \<Rightarrow> (Inr (Callable (newfunc attr)), m)
      | Inr (Plain v) \<Rightarrow> (Inr (Plain v), m))"

text \<open>
  \<^verbatim>\<open>__call__\<close> (lines 44 to 52); \<open>forward\<close> is what calling the wrapped model
  itself runs.
\<close>

definition call_proxy :: "('s, 'a, 'r) bound_method \<Rightarrow> ('s, 'a, 'r) bound_method" where
  "call_proxy forward args m =
     (let was_training = training m;
          m1 = eval_mode m;
          (prior, m2) = disable_adapter_enter m1;
          (result, m3) = forward args m2;
          m4 = disable_adapter_exit prior m3
      in case result of
           Inl e \<Rightarrow> (Inl e, m4)
         | Inr r \<Rightarrow> (Inr r, if was_training then train_mode m4 else m4))"

text \<open>
  The expression \<^verbatim>\<open>proxy.name(*args)\<close>: the attribute is fetched through the proxy and
  then called; calling a value that is not callable is a \<^verbatim>\<open>TypeError\<close>.
\<close>

definition invoke :: "('s, 'a, 'r) attrs \<Rightarrow> string \<Rightarrow> ('s, 'a, 'r) bound_method" where
  "invoke tbl name args m =
     (case getattribute tbl name m of
        (Inl e, m') \<Rightarrow> (Inl e, m')
      | (Inr (Callable f), m') \<Rightarrow> f args m'
      | (Inr (Plain v), m') \<Rightarrow> (Inl (TypeError name), m'))"

text \<open>
  The state in which the proxy runs the wrapped capability: evaluation mode, adapter
  suppressed. A model without the adapter's contribution computes what the wrapped
  capability computes in this state.
\<close>

definition base_state :: "'s model \<Rightarrow> 's model" where
  "base_state m = m\<lparr>training := False, adapter_disabled := True\<rparr>"

text \<open>
  The attributes of the wrapped model that \<^verbatim>\<open>train.py\<close> uses by name:
  \<^verbatim>\<open>train(mode=True)\<close> and \<^verbatim>\<open>eval()\<close> set the flag and return the model (here
  \<open>None\<close>), \<^verbatim>\<open>training\<close> reads it. Arguments are the positional booleans.
\<close>

definition module_train :: "('s, bool list, bool option) bound_method" where
  "module_train args m =
     (case args of
        [] \<Rightarrow> (Inr None, train_mode m)
      | [mode] \<Rightarrow> (Inr None, m\<lparr>training := mode\<rparr>)
      | _ \<Rightarrow> (Inl (TypeError ''train''), m))"

definition module_eval :: "('s, bool list, bool option) bound_method" where
  "module_eval args m =
     (case args of
        [] \<Rightarrow> (Inr None, eval_mode m)
      | _ \<Rightarrow> (Inl (TypeError ''eval''), m))"

definition module_attrs :: "('s, bool list, bool option) attrs" where
  "module_attrs m name =
     (if name = ''train'' then Some (Callable module_train)
      else if name = ''eval'' then Some (Callable module_eval)
      else if name = ''training'' then Some (Plain (Some (training m)))
      else None)"

text \<open>A model in training mode and one in evaluation mode, adapter active.\<close>

definition training_model :: "unit model" where
  "training_model = \<lparr>training = True, adapter_disabled = False, payload = ()\<rparr>"

definition evaluating_model :: "unit model" where
  "evaluating_model = \<lparr>training = False, adapter_disabled = False, payload = ()\<rparr>"

text \<open>A callable that fails without touching the model.\<close>

definition failing_method :: "(unit, bool list, bool option) bound_method" where
  "failing_method args m = (Inl (RuntimeError ''forward''), m)"

text \<open>A callable that switches the model to training mode and then fails.\<close>

definition train_then_fail :: "(unit, bool list, bool option) bound_method" where
  "train_then_fail args m = (Inl (RuntimeError ''forward''), train_mode m)"

section \<open>Orchestration (\<^verbatim>\<open>main\<close> and \<^verbatim>\<open>worker_main\<close>)\<close>

subsection \<open>Configuration\<close>

text \<open>
  The resolved configuration tree, nested keys flattened (\<^verbatim>\<open>config.model.archive\<close> is
  \<open>model_archive\<close>). \<open>missing_keys\<close> is what \<^verbatim>\<open>OmegaConf.missing_keys(config)\<close>
  returns for it.
\<close>

record config =
  missing_keys :: "string list"
  exp_name :: string
  trainer :: string
  seed :: int
  batch_size :: int
  eval_every :: int
  debug :: bool
  fsdp_port :: int
  local_dirs :: "string list"
  local_run_dir :: string
  model_name_or_path :: string
  model_policy_dtype :: string
  model_reference_dtype :: string
  model_archive :: "string option"
  lora_enabled :: bool
  lora_r :: int
  lora_alpha :: int
  lora_dropout :: real
  loss_name :: string
  wandb_enabled :: bool
  wandb_entity :: string
  wandb_project :: string

subsection \<open>Model objects, checkpoints and the environment\<close>

type_synonym tensor = "int list"
type_synonym state_dict = "(string \<times> tensor) list"
type_synonym metrics_t = "(string \<times> int) list"

text \<open>A model as \<^verbatim>\<open>AutoModelForCausalLM.from_pretrained\<close> returns it.\<close>

record causal_lm =
  name_or_path :: string
  torch_dtype :: string
  device_map :: "string option"
  dropout_disabled :: bool
  weights :: state_dict

text \<open>
  An adapter: the fields of \<^verbatim>\<open>LoraConfig\<close>, and the adapter's saved weights when it
  was read from a directory (\<open>None\<close> for a freshly initialised one).
\<close>

datatype adapter = Adapter
  (ad_r: int) (ad_alpha: int) (ad_dropout: real) (ad_bias: string) (ad_task_type: string)
  (ad_target_modules: "string list") (ad_weights: "state_dict option")

text \<open>
  Objects live in a heap and are named by their index, so that two variables can hold
  the same model. A \<open>PeftModel\<close> wraps the base model it was built over.
\<close>

datatype obj =
    AutoModel causal_lm
  | PeftModel (base: nat) (adapter: adapter) (is_trainable: bool)

text \<open>
  The value of the variable \<^verbatim>\<open>reference_model\<close> when it is not \<^verbatim>\<open>None\<close>: the proxy
  over a heap object, or a model of its own.
\<close>

datatype reference = ModelWithDisabledAdapter nat | ReferenceModel nat

text \<open>
  The dictionary that \<^verbatim>\<open>torch.load\<close> returns; a key it lacks is \<open>None\<close>.
\<close>

record checkpoint =
  step_idx :: "int option"
  metrics :: "metrics_t option"
  state :: "state_dict option"

text \<open>
  What the run finds outside itself: the accelerators, the names \<^verbatim>\<open>torch\<close> and
  \<^verbatim>\<open>trainers\<close> export, the pretrained models that can be resolved, the files
  \<^verbatim>\<open>torch.load\<close> can read, the adapter directories, the host name, and the function
  \<^verbatim>\<open>get_local_dir\<close> of \<^verbatim>\<open>utils\<close>.
\<close>

record env =
  device_count :: nat
  torch_names :: "string list"
  trainer_names :: "string list"
  pretrained :: "string \<Rightarrow> state_dict option"
  files :: "string \<Rightarrow> checkpoint option"
  adapter_dirs :: "string \<Rightarrow> adapter option"
  hostname :: string
  get_local_dir :: "string list \<Rightarrow> string"

subsection \<open>Effects\<close>

text \<open>The lines the run prints.\<close>

datatype msg =
    Warning_eval_every
  | Setting_eval_every int
  | Config_yaml config
  | Rule
  | Writing_to string string
  | Building_policy
  | Adding_LORA
  | Building_reference_model
  | Loading_pretrained_weights int string metrics_t
  | Loaded_pretrained_weights
  | Starting_processes nat
  | Starting_single_process_worker

text \<open>What one call of \<^verbatim>\<open>worker_main\<close> does, in order.\<close>

datatype wevent =
    InitDistributed nat nat int
  | WandbPatched
  | SetEnvWorker string string
  | WandbInit string string config string string
  | Creating_trainer nat nat
  | TrainerInit string nat config int string "reference option" nat nat
  | Train
  | Save

record worker_run =
  w_rank :: nat
  w_world_size :: nat
  w_events :: "wevent list"
  w_raised :: "error option"

text \<open>
  What the parent process does, in order. \<open>Spawn nprocs join runs\<close> is the call of
  \<^verbatim>\<open>mp.spawn\<close> with the runs of its child processes; \<open>Worker rank world_size\<close>
  marks a call of \<^verbatim>\<open>worker_main\<close> in the parent itself, whose steps follow as
  \<open>InWorker\<close>.
\<close>

datatype event =
    Print msg
  | SaveConfig string config
  | SetEnv string string
  | FromPretrained nat string string string "string option"
  | GetPeftModel nat nat
  | TorchLoad string
  | PeftFromPretrained nat nat string
  | LoadStateDict nat
  | Spawn nat bool "worker_run list"
  | Worker nat nat
  | InWorker wevent

record world =
  heap :: "obj list"
  trace :: "event list"

type_synonym 'a run = "world \<Rightarrow> (error + 'a) \<times> world"

definition return :: "'a \<Rightarrow> 'a run" where
  "return x w = (Inr x, w)"

definition raise :: "error \<Rightarrow> 'a run" where
  "raise e w = (Inl e, w)"

definition bindE :: "'a run \<Rightarrow> ('a \<Rightarrow> 'b run) \<Rightarrow> 'b run" where
  "bindE m f w = (case m w of (Inl e, w') \<Rightarrow> (Inl e, w') | (Inr x, w') \<Rightarrow> f x w')"

definition emit :: "event list \<Rightarrow> unit run" where
  "emit es w = (Inr (), w\<lparr>trace := trace w @ es\<rparr>)"

definition alloc :: "obj \<Rightarrow> nat run" where
  "alloc ob w = (Inr (length (heap w)), w\<lparr>heap := heap w @ [ob]\<rparr>)"

text \<open>Python's \<^verbatim>\<open>sub in s\<close> on strings.\<close>

fun in_str :: "string \<Rightarrow> string \<Rightarrow> bool" where
  "in_str sub [] = (sub = [])"
| "in_str sub (c # cs) = (take (length sub) (c # cs) = sub \<or> in_str sub cs)"

subsection \<open>Calls into the libraries\<close>

text \<open>\<^verbatim>\<open>getattr(torch, name)\<close> and \<^verbatim>\<open>getattr(trainers, name)\<close>.\<close>

definition getattr_torch :: "env \<Rightarrow> string \<Rightarrow> string run" where
  "getattr_torch e name =
     (if name \<in> set (torch_names e) then return name else raise (AttributeError name))"

definition getattr_trainers :: "env \<Rightarrow> string \<Rightarrow> error + string" where
  "getattr_trainers e name =
     (if name \<in> set (trainer_names e) then Inr name else Inl (AttributeError name))"

text \<open>
  \<^verbatim>\<open>AutoModelForCausalLM.from_pretrained(name, cache_dir=.., low_cpu_mem_usage=True,
  torch_dtype=.., **model_kwargs)\<close>: a new object with the pretrained weights, or an
  error when the name cannot be resolved.
\<close>

definition from_pretrained ::
  "env \<Rightarrow> string \<Rightarrow> string \<Rightarrow> string \<Rightarrow> string option \<Rightarrow> nat run" where
  "from_pretrained e name cache_dir dtype model_kwargs =
     (case pretrained e name of
        None \<Rightarrow> raise (OSError name)
      | Some sd \<Rightarrow>
          bindE (alloc (AutoModel \<lparr>name_or_path = name, torch_dtype = dtype,
                   device_map = model_kwargs, dropout_disabled = False, weights = sd\<rparr>))
            (\<lambda>i. bindE (emit [FromPretrained i name cache_dir dtype model_kwargs])
              (\<lambda>_. return i)))"

text \<open>
  Modelled from the spec: \<^verbatim>\<open>disable_dropout\<close> is defined in \<^verbatim>\<open>utils\<close>, which is not
  among the sources. It switches dropout off in the model it is given, in place.
\<close>

definition disable_dropout :: "nat \<Rightarrow> unit run" where
  "disable_dropout i w =
     (case (if i < length (heap w) then Some (heap w ! i) else None) of
        Some (AutoModel m) \<Rightarrow>
          (Inr (), w\<lparr>heap := (heap w)[i := AutoModel (m\<lparr>dropout_disabled := True\<rparr>)]\<rparr>)
      | _ \<Rightarrow> (Inr (), w))"

text \<open>\<^verbatim>\<open>get_peft_model(policy, lora_config)\<close>: a new adapter over the model.\<close>

definition get_peft_model :: "nat \<Rightarrow> adapter \<Rightarrow> nat run" where
  "get_peft_model i lora_config =
     bindE (alloc (PeftModel i lora_config True))
       (\<lambda>j. bindE (emit [GetPeftModel i j]) (\<lambda>_. return j))"

text \<open>
  \<^verbatim>\<open>PeftModel.from_pretrained(policy, path, is_trainable=True)\<close>: the adapter saved
  under \<open>path\<close>, over the model.
\<close>

definition peft_from_pretrained :: "env \<Rightarrow> nat \<Rightarrow> string \<Rightarrow> bool \<Rightarrow> nat run" where
  "peft_from_pretrained e i path trainable =
     (case adapter_dirs e path of
        None \<Rightarrow> raise (ValueError [path])
      | Some a \<Rightarrow>
          bindE (alloc (PeftModel i a trainable))
            (\<lambda>j. bindE (emit [PeftFromPretrained i j path]) (\<lambda>_. return j)))"

text \<open>\<^verbatim>\<open>torch.load(path, map_location='cpu')\<close>, and reading a key of its result.\<close>

definition torch_load :: "env \<Rightarrow> string \<Rightarrow> checkpoint run" where
  "torch_load e path =
     (case files e path of
        None \<Rightarrow> raise (FileNotFoundError path)
      | Some c \<Rightarrow> bindE (emit [TorchLoad path]) (\<lambda>_. return c))"

definition getitem :: "'a option \<Rightarrow> string \<Rightarrow> 'a run" where
  "getitem v key = (case v of None \<Rightarrow> raise (KeyError key) | Some x \<Rightarrow> return x)"

text \<open>
  \<^verbatim>\<open>model.load_state_dict(sd)\<close>: the weights are overwritten in place when the keys
  are those of the model, and the call raises otherwise.
\<close>

definition load_state_dict :: "nat \<Rightarrow> state_dict \<Rightarrow> unit run" where
  "load_state_dict i sd w =
     (case (if i < length (heap w) then Some (heap w ! i) else None) of
        Some (AutoModel m) \<Rightarrow>
          (if set (map fst sd) = set (map fst (weights m))
           then (Inr (), w\<lparr>heap := (heap w)[i := AutoModel (m\<lparr>weights := sd\<rparr>)],
                           trace := trace w @ [LoadStateDict i]\<rparr>)
           else (Inl (RuntimeError ''load_state_dict''), w))
      | _ \<Rightarrow> (Inl (RuntimeError ''load_state_dict''), w))"

text \<open>
  \<^verbatim>\<open>reference_model.load_state_dict(sd)\<close> on the variable's value: \<^verbatim>\<open>None\<close> has no
  such attribute, and the proxy forwards the call to the model it wraps.
\<close>

definition reference_load_state_dict :: "reference option \<Rightarrow> state_dict \<Rightarrow> unit run" where
  "reference_load_state_dict reference_model sd =
     (case reference_model of
        None \<Rightarrow> raise (AttributeError ''load_state_dict'')
      | Some (ReferenceModel i) \<Rightarrow> load_state_dict i sd
      | Some (ModelWithDisabledAdapter i) \<Rightarrow> load_state_dict i sd)"

subsection \<open>\<^verbatim>\<open>worker_main\<close>\<close>

text \<open>
  Lines 55 to 79. The function returns what it did and the exception it raised, if any.
  \<^verbatim>\<open>init_distributed\<close>, \<^verbatim>\<open>wandb\<close> and the trainer classes are collaborators outside
  the sources: their calls are recorded, and only the lookup of the trainer class by
  name can fail here.
\<close>

definition worker_main ::
  "env \<Rightarrow> nat \<Rightarrow> nat \<Rightarrow> config \<Rightarrow> nat \<Rightarrow> reference option \<Rightarrow> worker_run" where
  "worker_main e rank world_size cfg policy reference_model =
     (let ev1 = (if in_str ''FSDP'' (trainer cfg)
                 then [InitDistributed rank world_size (fsdp_port cfg)] else []);
          ev2 = (if debug cfg then [WandbPatched] else []);
          ev3 = (if rank = 0 \<and> wandb_enabled cfg
                 then SetEnvWorker ''WANDB_CACHE_DIR'' (get_local_dir e (local_dirs cfg)) #
                      (if debug cfg then []
                       else [WandbInit (wandb_entity cfg) (wandb_project cfg) cfg
                               (get_local_dir e (local_dirs cfg)) (exp_name cfg)])
                 else [])
      in case getattr_trainers e (trainer cfg) of
           Inl err \<Rightarrow>
             \<lparr>w_rank = rank, w_world_size = world_size, w_events = ev1 @ ev2 @ ev3,
              w_raised = Some err\<rparr>
         | Inr TrainerClass \<Rightarrow>
             \<lparr>w_rank = rank, w_world_size = world_size,
              w_events = ev1 @ ev2 @ ev3 @
                [Creating_trainer rank world_size,
                 TrainerInit TrainerClass policy cfg (seed cfg) (local_run_dir cfg)
                   reference_model rank world_size,
                 Train, Save],
              w_raised = None\<rparr>)"

subsection \<open>\<^verbatim>\<open>main\<close>\<close>

text \<open>
  Lines 89 to 96: the missing keys, then the adjustment of \<^verbatim>\<open>eval_every\<close>. Python's
  \<^verbatim>\<open>%\<close> raises on a zero divisor and otherwise takes the sign of the divisor, as
  \<open>mod\<close> on \<open>int\<close> does.
\<close>

definition validate_config :: "config \<Rightarrow> config run" where
  "validate_config cfg =
     (if missing_keys cfg \<noteq> [] then raise (ValueError (missing_keys cfg))
      else if batch_size cfg = 0 then raise ZeroDivisionError
      else if eval_every cfg mod batch_size cfg \<noteq> 0 then
        bindE (emit [Print Warning_eval_every,
                     Print (Setting_eval_every (eval_every cfg - eval_every cfg mod batch_size cfg))])
          (\<lambda>_. return (cfg\<lparr>eval_every := eval_every cfg - eval_every cfg mod batch_size cfg\<rparr>))
      else return cfg)"

text \<open>Lines 98 to 108: the configuration is printed and saved, the cache is set.\<close>

definition announce :: "env \<Rightarrow> config \<Rightarrow> unit run" where
  "announce e cfg =
     emit [Print (Config_yaml cfg),
           SaveConfig (local_run_dir cfg @ ''/config.yaml'') cfg,
           Print Rule, Print (Writing_to (hostname e) (local_run_dir cfg)), Print Rule,
           SetEnv ''XDG_CACHE_HOME'' (get_local_dir e (local_dirs cfg))]"

text \<open>
  Lines 109 to 133: the policy. \<open>model_kwargs\<close> is the dictionary of line 110 (its
  only key is \<^verbatim>\<open>device_map\<close>), \<open>lora_config\<close> the \<^verbatim>\<open>LoraConfig\<close> of lines 118
  to 131. The result carries \<^verbatim>\<open>model_kwargs\<close> and \<^verbatim>\<open>policy_dtype\<close>, which later
  lines use again.
\<close>

definition model_kwargs :: "config \<Rightarrow> string option" where
  "model_kwargs cfg = (if trainer cfg = ''BasicTrainer'' then Some ''balanced'' else None)"

definition lora_config :: "config \<Rightarrow> adapter" where
  "lora_config cfg =
     Adapter (lora_r cfg) (lora_alpha cfg) (lora_dropout cfg) ''none'' ''CAUSAL_LM''
       [''q_proj'', ''v_proj'', ''k_proj'', ''o_proj''] None"

definition build_policy :: "env \<Rightarrow> config \<Rightarrow> (nat \<times> string \<times> string option) run" where
  "build_policy e cfg =
     bindE (emit [Print Building_policy]) (\<lambda>_.
     bindE (getattr_torch e (model_policy_dtype cfg)) (\<lambda>policy_dtype.
     bindE (from_pretrained e (model_name_or_path cfg) (get_local_dir e (local_dirs cfg))
              policy_dtype (model_kwargs cfg)) (\<lambda>policy.
     bindE (disable_dropout policy) (\<lambda>_.
     if lora_enabled cfg then
       bindE (emit [Print Adding_LORA]) (\<lambda>_.
       bindE (get_peft_model policy (lora_config cfg)) (\<lambda>policy'.
       return (policy', policy_dtype, model_kwargs cfg)))
     else return (policy, policy_dtype, model_kwargs cfg)))))"

text \<open>Lines 135 to 145: the reference model.\<close>

definition build_reference ::
  "env \<Rightarrow> config \<Rightarrow> nat \<Rightarrow> string option \<Rightarrow> reference option run" where
  "build_reference e cfg policy kwargs =
     (if loss_name cfg = ''dpo'' then
        bindE (emit [Print Building_reference_model]) (\<lambda>_.
        if lora_enabled cfg then return (Some (ModelWithDisabledAdapter policy))
        else
          bindE (getattr_torch e (model_reference_dtype cfg)) (\<lambda>reference_model_dtype.
          bindE (from_pretrained e (model_name_or_path cfg) (get_local_dir e (local_dirs cfg))
                   reference_model_dtype kwargs) (\<lambda>reference_model.
          bindE (disable_dropout reference_model) (\<lambda>_.
          return (Some (ReferenceModel reference_model))))))
      else return None)"

text \<open>Lines 147 to 162: the checkpoint, when an archive is configured.\<close>

definition restore_archive ::
  "env \<Rightarrow> config \<Rightarrow> nat \<Rightarrow> string \<Rightarrow> string option \<Rightarrow> reference option \<Rightarrow>
   (nat \<times> reference option) run" where
  "restore_archive e cfg policy policy_dtype kwargs reference_model =
     (case model_archive cfg of
        None \<Rightarrow> return (policy, reference_model)
      | Some archive \<Rightarrow>
          bindE (torch_load e (archive @ ''/policy.pt'')) (\<lambda>sd.
          bindE (getitem (step_idx sd) ''step_idx'') (\<lambda>step.
          bindE (getitem (metrics sd) ''metrics'') (\<lambda>mtr.
          bindE (emit [Print (Loading_pretrained_weights step archive mtr)]) (\<lambda>_.
          bindE
            (if lora_enabled cfg then
               bindE (from_pretrained e (model_name_or_path cfg)
                        (get_local_dir e (local_dirs cfg)) policy_dtype kwargs) (\<lambda>policy'.
               bindE (disable_dropout policy') (\<lambda>_.
               bindE (peft_from_pretrained e policy' archive True) (\<lambda>policy''.
               return (policy'',
                 if loss_name cfg = ''dpo'' then Some (ModelWithDisabledAdapter policy'')
                 else reference_model))))
             else
               bindE (getitem (state sd) ''state'') (\<lambda>st.
               bindE (load_state_dict policy st) (\<lambda>_.
               if loss_name cfg = ''dpo'' then
                 bindE (getitem (state sd) ''state'') (\<lambda>st'.
                 bindE (reference_load_state_dict reference_model st') (\<lambda>_.
                 return (policy, reference_model)))
               else return (policy, reference_model))))
            (\<lambda>res.
          bindE (emit [Print Loaded_pretrained_weights]) (\<lambda>_.
          return res)))))))"

text \<open>
  Lines 164 to 170: the workers. \<^verbatim>\<open>mp.spawn(fn, nprocs=n, args=.., join=True)\<close> runs
  \<open>fn(i, *args)\<close> in a process of its own for every \<open>i\<close> below \<open>n\<close>, waits for
  all of them and raises when one of them raised. A worker called in the parent leaves
  its steps in the parent's trace, and its exception is the parent's.
\<close>

definition launch :: "env \<Rightarrow> config \<Rightarrow> nat \<Rightarrow> reference option \<Rightarrow> unit run" where
  "launch e cfg policy reference_model =
     (if in_str ''FSDP'' (trainer cfg) then
        (let world_size = device_count e;
             runs = map (\<lambda>i. worker_main e i world_size cfg policy reference_model)
                      [0..<world_size]
         in bindE (emit [Print (Starting_processes world_size), Spawn world_size True runs])
              (\<lambda>_. if list_ex (\<lambda>r. w_raised r \<noteq> None) runs
                    then raise ProcessRaisedException else return ()))
      else
        (let r = worker_main e 0 1 cfg policy reference_model
         in bindE (emit (Print Starting_single_process_worker # Worker 0 1 #
                         map InWorker (w_events r)))
              (\<lambda>_. case w_raised r of None \<Rightarrow> return () | Some err \<Rightarrow> raise err)))"

text \<open>
  \<open>prepare\<close> is \<^verbatim>\<open>main\<close> up to line 162 and yields what the workers are given;
  \<open>main\<close> is the whole function.
\<close>

definition prepare :: "env \<Rightarrow> config \<Rightarrow> (config \<times> nat \<times> reference option) run" where
  "prepare e config0 =
     bindE (validate_config config0) (\<lambda>cfg.
     bindE (announce e cfg) (\<lambda>_.
     bindE (build_policy e cfg) (\<lambda>(policy, policy_dtype, kwargs).
     bindE (build_reference e cfg policy kwargs) (\<lambda>reference_model.
     bindE (restore_archive e cfg policy policy_dtype kwargs reference_model)
       (\<lambda>(policy', reference_model').
     return (cfg, policy', reference_model'))))))"

text \<open>
  \<open>models_before_restore\<close> is \<^verbatim>\<open>main\<close> up to line 145: it yields the values of
  \<^verbatim>\<open>policy\<close>, \<^verbatim>\<open>policy_dtype\<close>, \<^verbatim>\<open>model_kwargs\<close> and \<^verbatim>\<open>reference_model\<close>
  as they are before line 147 looks at the archive.
\<close>

definition models_before_restore ::
  "env \<Rightarrow> config \<Rightarrow> (config \<times> nat \<times> string \<times> string option \<times> reference option) run" where
  "models_before_restore e config0 =
     bindE (validate_config config0) (\<lambda>cfg.
     bindE (announce e cfg) (\<lambda>_.
     bindE (build_policy e cfg) (\<lambda>(policy, policy_dtype, kwargs).
     bindE (build_reference e cfg policy kwargs) (\<lambda>reference_model.
     return (cfg, policy, policy_dtype, kwargs, reference_model)))))"

definition main :: "env \<Rightarrow> config \<Rightarrow> unit run" where
  "main e config0 =
     bindE (prepare e config0) (\<lambda>(cfg, policy, reference_model).
     launch e cfg policy reference_model)"

definition world0 :: world where
  "world0 = \<lparr>heap = [], trace = []\<rparr>"

subsection \<open>Reading the heap and the trace\<close>

text \<open>
  The object that \<^verbatim>\<open>from_pretrained\<close> followed by \<^verbatim>\<open>disable_dropout\<close> leaves on
  the heap.
\<close>

definition pretrained_model :: "string \<Rightarrow> string \<Rightarrow> string option \<Rightarrow> state_dict \<Rightarrow> obj" where
  "pretrained_model name dtype kwargs sd =
     AutoModel \<lparr>name_or_path = name, torch_dtype = dtype, device_map = kwargs,
                dropout_disabled = True, weights = sd\<rparr>"



text \<open>Which objects are full models, as opposed to adapters over one.\<close>

fun is_auto_model :: "obj \<Rightarrow> bool" where
  "is_auto_model (AutoModel m) = True"
| "is_auto_model _ = False"



subsection \<open>A concrete run\<close>

text \<open>
  An environment with two accelerators, one pretrained model, one checkpoint archive
  and the three trainer classes, and a configuration for it.
\<close>

definition example_env :: env where
  "example_env =
     \<lparr>device_count = 2,
      torch_names = [''float32'', ''float16'', ''bfloat16''],
      trainer_names = [''BasicTrainer'', ''FSDPTrainer'', ''TensorParallelTrainer''],
      pretrained = (\<lambda>name. if name = ''gpt2''
                      then Some [(''wte'', [1, 2]), (''lm_head'', [3])] else None),
      files = (\<lambda>path. if path = ''ckpt/policy.pt''
                 then Some \<lparr>step_idx = Some 100, metrics = Some [(''loss'', 1)],
                            state = Some [(''wte'', [5, 6]), (''lm_head'', [7])]\<rparr>
                 else None),
      adapter_dirs = (\<lambda>path. if path = ''ckpt''
                 then Some (Adapter 4 8 0 ''none'' ''CAUSAL_LM'' [''q_proj'', ''v_proj'']
                              (Some [(''lora_A'', [9])]))
                 else None),
      hostname = ''host'',
      get_local_dir = (\<lambda>dirs. case dirs of [] \<Rightarrow> [] | d # _ \<Rightarrow> d)\<rparr>"

definition example_config :: config where
  "example_config =
     \<lparr>missing_keys = [],
      exp_name = ''run'',
      trainer = ''BasicTrainer'',
      seed = 0,
      batch_size = 30,
      eval_every = 100,
      debug = False,
      fsdp_port = 12355,
      local_dirs = [''.cache''],
      local_run_dir = ''.cache/run'',
      model_name_or_path = ''gpt2'',
      model_policy_dtype = ''float32'',
      model_reference_dtype = ''float16'',
      model_archive = None,
      lora_enabled = False,
      lora_r = 8,
      lora_alpha = 16,
      lora_dropout = 0,
      loss_name = ''dpo'',
      wandb_enabled = False,
      wandb_entity = ''team'',
      wandb_project = ''dpo''\<rparr>"

section \<open>Properties of the proxy\<close>

lemma call_proxy_unfold:
  "call_proxy forward args m =
     (case forward args (base_state m) of
        (Inl e, m') \<Rightarrow> (Inl e, m'\<lparr>adapter_disabled := adapter_disabled m\<rparr>)
      | (Inr r, m') \<Rightarrow>
          (Inr r, if training m then m'\<lparr>adapter_disabled := adapter_disabled m, training := True\<rparr>
                  else m'\<lparr>adapter_disabled := adapter_disabled m\<rparr>))"
  by (simp add: call_proxy_def base_state_def eval_mode_def train_mode_def
      disable_adapter_enter_def disable_adapter_exit_def Let_def split: prod.splits sum.splits)

lemma newfunc_call_proxy: "newfunc attr = call_proxy attr"
  by (rule ext, rule ext) (simp add: newfunc_def call_proxy_def)

lemma invoke_callable:
  "getattr_model tbl m name = Inr (Callable attr) \<Longrightarrow>
   invoke tbl name args m = call_proxy attr args m"
  by (simp add: invoke_def getattribute_def newfunc_call_proxy)

lemmas module_defs = getattr_model_def module_attrs_def module_train_def module_eval_def
  training_model_def evaluating_model_def failing_method_def eval_mode_def train_mode_def
  base_state_def

text \<open>
  Claim C1. Whatever is invoked through the proxy, by calling the proxy itself or by
  calling a callable attribute fetched from it, returns (or raises) what the wrapped
  capability returns (or raises) when it runs on the model in evaluation mode with the
  adapter suppressed, all else in the model as it was. An attribute that is not
  callable is handed back as it is, and fetching it leaves the model untouched.
\<close>

theorem proxy_returns_base_result:
  "fst (call_proxy forward args m) = fst (forward args (base_state m)) \<and>
   \<not> training (base_state m) \<and> adapter_disabled (base_state m) \<and>
   payload (base_state m) = payload m \<and>
   (getattr_model tbl m name = Inr (Callable attr) \<longrightarrow>
      getattribute tbl name m = (Inr (Callable (newfunc attr)), m) \<and>
      fst (newfunc attr args m) = fst (attr args (base_state m)) \<and>
      fst (invoke tbl name args m) = fst (attr args (base_state m))) \<and>
   (getattr_model tbl m name = Inr (Plain v) \<longrightarrow>
      getattribute tbl name m = (Inr (Plain v), m))"
proof -
  have direct: "fst (call_proxy f args m) = fst (f args (base_state m))" for f
    by (simp add: call_proxy_unfold split: prod.splits sum.splits)
  have state: "\<not> training (base_state m) \<and> adapter_disabled (base_state m) \<and>
      payload (base_state m) = payload m"
    by (simp add: base_state_def)
  have fetched: "getattribute tbl name m = (Inr (Callable (newfunc attr)), m) \<and>
      fst (newfunc attr args m) = fst (attr args (base_state m)) \<and>
      fst (invoke tbl name args m) = fst (attr args (base_state m))"
    if "getattr_model tbl m name = Inr (Callable attr)"
    using that direct [of attr] by (simp add: invoke_callable newfunc_call_proxy getattribute_def)
  have plain: "getattribute tbl name m = (Inr (Plain v), m)"
    if "getattr_model tbl m name = Inr (Plain v)"
    using that by (simp add: getattribute_def)
  from direct state fetched plain show ?thesis by blast
qed

theorem proxy_returns_base_result_witness:
  "getattr_model module_attrs training_model ''eval'' = Inr (Callable module_eval) \<and>
   fst (invoke module_attrs ''eval'' [] training_model) = Inr None \<and>
   getattr_model module_attrs training_model ''training'' = Inr (Plain (Some True)) \<and>
   getattribute module_attrs ''training'' training_model = (Inr (Plain (Some True)), training_model)"
proof -
  have c: "getattr_model module_attrs training_model ''eval'' = Inr (Callable module_eval)"
    by (simp add: getattr_model_def module_attrs_def)
  have p: "getattr_model module_attrs training_model ''training'' = Inr (Plain (Some True))"
    by (simp add: getattr_model_def module_attrs_def training_model_def)
  from proxy_returns_base_result
    [of module_eval "[]" training_model module_attrs "''eval''" module_eval "Some True"] c
  have 1: "fst (invoke module_attrs ''eval'' [] training_model) = Inr None"
    by (simp add: module_eval_def)
  from proxy_returns_base_result
    [of module_eval "[]" training_model module_attrs "''training''" module_eval "Some True"] p
  have 2: "getattribute module_attrs ''training'' training_model
      = (Inr (Plain (Some True)), training_model)"
    by simp
  from c p 1 2 show ?thesis by simp
qed

text \<open>
  Claim C2, as stated, fails: \<^verbatim>\<open>proxy.train()\<close> on a model in evaluation mode
  returns normally and leaves the model in training mode, because the mode is only ever
  switched back to training, never back to evaluation.
\<close>

theorem train_through_proxy_changes_mode:
  "training (snd (invoke module_attrs ''train'' [] evaluating_model)) \<noteq> training evaluating_model"
  by (simp add: invoke_def getattribute_def newfunc_call_proxy call_proxy_unfold module_defs)

text \<open>
  Claim C2, amended. When the invocation returns normally, a model that was in training
  mode is in training mode afterwards, and a model that was in evaluation mode is left
  in the mode in which the wrapped capability left it. So the mode after the call is
  the mode before it whenever the wrapped capability did not itself switch the model to
  training mode.
\<close>

theorem mode_after_normal_return:
  assumes "forward args (base_state m) = (Inr r, m')"
  shows "training (snd (call_proxy forward args m)) = (training m \<or> training m') \<and>
         training (snd (newfunc forward args m)) = (training m \<or> training m') \<and>
         (\<not> training m' \<longrightarrow>
            training (snd (call_proxy forward args m)) = training m \<and>
            training (snd (newfunc forward args m)) = training m)"
  using assms by (simp add: newfunc_call_proxy call_proxy_unfold)

theorem mode_after_normal_return_witness:
  "module_eval [] (base_state training_model) = (Inr None, base_state training_model) \<and>
   \<not> training (base_state training_model) \<and>
   training (snd (call_proxy module_eval [] training_model)) = training training_model \<and>
   training (snd (newfunc module_eval [] training_model)) = training training_model"
proof -
  have h: "module_eval [] (base_state training_model) = (Inr None, base_state training_model)"
    by (simp add: module_defs)
  have n: "\<not> training (base_state training_model)"
    by (simp add: base_state_def)
  from mode_after_normal_return
    [of module_eval "[]" training_model None "base_state training_model"] n h
  show ?thesis by simp
qed

text \<open>
  Claim C3, as stated, fails: a capability that switches the model to training mode and
  then raises leaves a model that was in training mode in training mode, not in
  evaluation mode, because the proxy does nothing to the mode after the exception.
\<close>

theorem raising_capability_decides_mode:
  "training training_model \<and>
   fst (call_proxy train_then_fail [] training_model) = Inl (RuntimeError ''forward'') \<and>
   training (snd (call_proxy train_then_fail [] training_model)) \<and>
   adapter_disabled (snd (call_proxy train_then_fail [] training_model))
     = adapter_disabled training_model"
  by (simp add: call_proxy_unfold train_then_fail_def module_defs)

text \<open>
  Claim C3, amended. When the wrapped capability raises, the exception leaves the proxy
  after the adapter scope has been left, so the suppression of the adapter is what it
  was before the call; no step restores the mode, so the model stays in the mode in
  which the capability left it. A model that was in training mode, and whose capability
  left the evaluation mode forced on it in place, is left in evaluation mode.
\<close>

theorem mode_not_restored_on_exception:
  assumes "forward args (base_state m) = (Inl e, m')"
  shows "call_proxy forward args m = (Inl e, m'\<lparr>adapter_disabled := adapter_disabled m\<rparr>) \<and>
         newfunc forward args m = (Inl e, m'\<lparr>adapter_disabled := adapter_disabled m\<rparr>) \<and>
         adapter_disabled (snd (call_proxy forward args m)) = adapter_disabled m \<and>
         training (snd (call_proxy forward args m)) = training m' \<and>
         (training m \<and> \<not> training m' \<longrightarrow>
            \<not> training (snd (call_proxy forward args m)) \<and>
            \<not> training (snd (newfunc forward args m)))"
  using assms by (simp add: newfunc_call_proxy call_proxy_unfold)

theorem mode_not_restored_on_exception_witness:
  "failing_method [] (base_state training_model)
     = (Inl (RuntimeError ''forward''), base_state training_model) \<and>
   training training_model \<and> \<not> training (base_state training_model) \<and>
   call_proxy failing_method [] training_model
     = (Inl (RuntimeError ''forward''), evaluating_model)"
proof -
  have h: "failing_method [] (base_state training_model)
      = (Inl (RuntimeError ''forward''), base_state training_model)"
    by (simp add: failing_method_def)
  have t: "training training_model \<and> \<not> training (base_state training_model)"
    by (simp add: training_model_def base_state_def)
  from mode_not_restored_on_exception
    [of failing_method "[]" training_model "RuntimeError ''forward''" "base_state training_model"] h t
  show ?thesis
    by (simp add: training_model_def evaluating_model_def base_state_def)
qed

section \<open>Properties of the orchestration\<close>

lemmas run_defs = return_def raise_def bindE_def emit_def alloc_def

lemma bindE_Inr: "m w = (Inr x, w') \<Longrightarrow> bindE m f w = f x w'"
  by (simp add: bindE_def)

lemma bindE_Inl: "m w = (Inl e, w') \<Longrightarrow> bindE m f w = (Inl e, w')"
  by (simp add: bindE_def)

lemma bindE_eq_Inr:
  "bindE m f w = (Inr y, w'') \<longleftrightarrow> (\<exists>x w'. m w = (Inr x, w') \<and> f x w' = (Inr y, w''))"
  by (auto simp: bindE_def split: prod.splits sum.splits)

subsection \<open>Validation\<close>

lemma validate_missing:
  "missing_keys cfg \<noteq> [] \<Longrightarrow> validate_config cfg w = (Inl (ValueError (missing_keys cfg)), w)"
  by (simp add: validate_config_def raise_def)

text \<open>
  Claim C9. A configuration with a missing key makes the run fail with the
  \<^verbatim>\<open>ValueError\<close> of line 91 and nothing else happens: the heap of models and the
  trace of effects are what they were, so no model was loaded, no checkpoint read and
  no worker started.
\<close>

theorem missing_keys_fail_first:
  assumes "missing_keys cfg \<noteq> []"
  shows "main e cfg w = (Inl (ValueError (missing_keys cfg)), w) \<and>
         prepare e cfg w = (Inl (ValueError (missing_keys cfg)), w)"
proof -
  have "validate_config cfg w = (Inl (ValueError (missing_keys cfg)), w)"
    using assms by (rule validate_missing)
  then have p: "prepare e cfg w = (Inl (ValueError (missing_keys cfg)), w)"
    unfolding prepare_def by (rule bindE_Inl)
  then have "main e cfg w = (Inl (ValueError (missing_keys cfg)), w)"
    unfolding main_def by (rule bindE_Inl)
  with p show ?thesis by simp
qed

theorem missing_keys_fail_first_witness:
  "missing_keys (example_config\<lparr>missing_keys := [''model.name_or_path'']\<rparr>) \<noteq> [] \<and>
   main example_env (example_config\<lparr>missing_keys := [''model.name_or_path'']\<rparr>) world0
     = (Inl (ValueError [''model.name_or_path'']), world0) \<and>
   heap world0 = [] \<and> trace world0 = []"
  using missing_keys_fail_first
    [of "example_config\<lparr>missing_keys := [''model.name_or_path'']\<rparr>" example_env world0]
  by (simp add: world0_def)

text \<open>
  Claim C5, as stated, fails for a negative \<^verbatim>\<open>batch_size\<close>: with
  \<^verbatim>\<open>eval_every=100\<close> and \<^verbatim>\<open>batch_size=-30\<close> the remainder is \<open>-20\<close> and the
  adjusted value is 120, above the original.
\<close>

theorem negative_batch_size_raises_eval_every:
  "eval_every (example_config\<lparr>batch_size := - 30\<rparr>)
     mod batch_size (example_config\<lparr>batch_size := - 30\<rparr>) \<noteq> 0 \<and>
   fst (validate_config (example_config\<lparr>batch_size := - 30\<rparr>) world0)
     = Inr (example_config\<lparr>batch_size := - 30, eval_every := 120\<rparr>) \<and>
   \<not> 120 \<le> eval_every (example_config\<lparr>batch_size := - 30\<rparr>)"
  by (simp add: validate_config_def example_config_def run_defs)

text \<open>
  Claim C5, amended. For a configuration without missing keys and with a positive
  \<^verbatim>\<open>batch_size\<close> that does not divide \<^verbatim>\<open>eval_every\<close>, validation succeeds, prints
  the warning and the new value, and replaces \<^verbatim>\<open>eval_every\<close> by the largest multiple
  of \<^verbatim>\<open>batch_size\<close> that does not exceed it; validating the adjusted configuration
  again changes nothing and prints nothing.
\<close>

theorem eval_every_adjusted:
  assumes "missing_keys cfg = []" and "0 < batch_size cfg"
    and "eval_every cfg mod batch_size cfg \<noteq> 0"
  shows "\<exists>cfg'. validate_config cfg w =
            (Inr cfg', w\<lparr>trace := trace w @ [Print Warning_eval_every,
                                              Print (Setting_eval_every (eval_every cfg'))]\<rparr>) \<and>
           cfg' = cfg\<lparr>eval_every := (eval_every cfg div batch_size cfg) * batch_size cfg\<rparr> \<and>
           eval_every cfg' mod batch_size cfg' = 0 \<and>
           eval_every cfg' \<le> eval_every cfg \<and>
           (\<forall>k. k * batch_size cfg \<le> eval_every cfg \<longrightarrow> k * batch_size cfg \<le> eval_every cfg') \<and>
           (\<forall>w'. validate_config cfg' w' = (Inr cfg', w'))"
proof -
  let ?b = "batch_size cfg" and ?n = "eval_every cfg"
  let ?a = "?n - ?n mod ?b"
  let ?cfg' = "cfg\<lparr>eval_every := ?a\<rparr>"
  have a: "?a = (?n div ?b) * ?b"
    by (simp add: minus_mod_eq_div_mult)
  have run: "validate_config cfg w =
      (Inr ?cfg', w\<lparr>trace := trace w @ [Print Warning_eval_every, Print (Setting_eval_every ?a)]\<rparr>)"
    using assms by (simp add: validate_config_def run_defs)
  have dvd: "?a mod ?b = 0"
    by (simp add: a)
  have le: "?a \<le> ?n"
    using assms(2) by (simp add: pos_mod_sign)
  have largest: "k * ?b \<le> ?a" if "k * ?b \<le> ?n" for k
  proof -
    have "(k * ?b) div ?b \<le> ?n div ?b"
      using that assms(2) by (rule zdiv_mono1)
    then have "k \<le> ?n div ?b"
      using assms(2) by simp
    then show ?thesis
      using assms(2) by (simp add: a mult_right_mono)
  qed
  have again: "validate_config ?cfg' w' = (Inr ?cfg', w')" for w'
    using assms dvd by (simp add: validate_config_def run_defs)
  from a run dvd le largest again show ?thesis
    by (intro exI [of _ ?cfg']) simp
qed

theorem eval_every_adjusted_witness:
  "missing_keys example_config = [] \<and> 0 < batch_size example_config \<and>
   eval_every example_config mod batch_size example_config \<noteq> 0 \<and>
   eval_every example_config = 100 \<and> batch_size example_config = 30 \<and>
   validate_config example_config world0 =
     (Inr (example_config\<lparr>eval_every := 90\<rparr>),
      world0\<lparr>trace := [Print Warning_eval_every, Print (Setting_eval_every 90)]\<rparr>) \<and>
   validate_config (example_config\<lparr>eval_every := 90\<rparr>) world0
     = (Inr (example_config\<lparr>eval_every := 90\<rparr>), world0)"
proof -
  have h: "missing_keys example_config = []" "0 < batch_size example_config"
    "eval_every example_config mod batch_size example_config \<noteq> 0"
    "eval_every example_config = 100" "batch_size example_config = 30"
    by (simp_all add: example_config_def)
  from eval_every_adjusted [OF h(1-3), of world0] h show ?thesis
    by (auto simp: world0_def)
qed

subsection \<open>What a successful step has done\<close>

lemma validate_config_Inr:
  assumes "validate_config cfg w = (Inr cfg', w')"
  shows "cfg' = cfg\<lparr>eval_every := eval_every cfg - eval_every cfg mod batch_size cfg\<rparr> \<and>
     heap w' = heap w \<and> missing_keys cfg = [] \<and> batch_size cfg \<noteq> 0"
  using assms by (auto simp: validate_config_def run_defs split: if_splits)

lemma announce_Inr:
  assumes "announce e cfg w = (Inr u, w')"
  shows "heap w' = heap w"
  using assms by (auto simp: announce_def run_defs)

lemma build_policy_Inr:
  assumes "build_policy e cfg w = (Inr (p, dt, kw), w')"
  shows "\<exists>sd. pretrained e (model_name_or_path cfg) = Some sd \<and>
           dt = model_policy_dtype cfg \<and> dt \<in> set (torch_names e) \<and> kw = model_kwargs cfg \<and>
           heap w' = heap w @ pretrained_model (model_name_or_path cfg) dt kw sd #
             (if lora_enabled cfg then [PeftModel (length (heap w)) (lora_config cfg) True] else []) \<and>
           p = length (heap w) + (if lora_enabled cfg then 1 else 0)"
  using assms
  by (auto simp: build_policy_def run_defs getattr_torch_def from_pretrained_def
      disable_dropout_def get_peft_model_def pretrained_model_def
      split: if_splits option.splits)

lemma build_reference_Inr:
  assumes "build_reference e cfg p kw w = (Inr r, w')"
  shows "if loss_name cfg \<noteq> ''dpo'' then r = None \<and> w' = w
         else if lora_enabled cfg then r = Some (ModelWithDisabledAdapter p) \<and> heap w' = heap w
         else \<exists>sd. pretrained e (model_name_or_path cfg) = Some sd \<and>
                model_reference_dtype cfg \<in> set (torch_names e) \<and>
                r = Some (ReferenceModel (length (heap w))) \<and>
                heap w' = heap w @
                  [pretrained_model (model_name_or_path cfg) (model_reference_dtype cfg) kw sd]"
  using assms
  by (auto simp: build_reference_def run_defs getattr_torch_def from_pretrained_def
      disable_dropout_def pretrained_model_def split: if_splits option.splits)

lemma restore_archive_None:
  "model_archive cfg = None \<Longrightarrow> restore_archive e cfg p dt kw r w = (Inr (p, r), w)"
  by (simp add: restore_archive_def return_def)

lemma restore_archive_lora:
  assumes "restore_archive e cfg p dt kw r w = (Inr (p', r'), w')"
    and "model_archive cfg = Some a" and "lora_enabled cfg"
  shows "\<exists>ck s mt sd ad. files e (a @ ''/policy.pt'') = Some ck \<and> step_idx ck = Some s \<and>
           metrics ck = Some mt \<and> pretrained e (model_name_or_path cfg) = Some sd \<and>
           adapter_dirs e a = Some ad \<and>
           heap w' = heap w @ [pretrained_model (model_name_or_path cfg) dt kw sd,
                               PeftModel (length (heap w)) ad True] \<and>
           trace w' = trace w @
             [TorchLoad (a @ ''/policy.pt''), Print (Loading_pretrained_weights s a mt),
              FromPretrained (length (heap w)) (model_name_or_path cfg)
                (get_local_dir e (local_dirs cfg)) dt kw,
              PeftFromPretrained (length (heap w)) (length (heap w) + 1) a,
              Print Loaded_pretrained_weights] \<and>
           p' = length (heap w) + 1 \<and>
           r' = (if loss_name cfg = ''dpo'' then Some (ModelWithDisabledAdapter p') else r)"
  using assms
  by (auto simp: restore_archive_def run_defs torch_load_def getitem_def from_pretrained_def
      disable_dropout_def peft_from_pretrained_def pretrained_model_def
      split: option.splits if_splits)

lemma restore_archive_full:
  assumes "restore_archive e cfg p dt kw r w = (Inr (p', r'), w')"
    and "model_archive cfg = Some a" and "\<not> lora_enabled cfg"
  shows "\<exists>ck s mt st m. files e (a @ ''/policy.pt'') = Some ck \<and> step_idx ck = Some s \<and>
           metrics ck = Some mt \<and> state ck = Some st \<and> p' = p \<and> r' = r \<and>
           p < length (heap w) \<and> heap w ! p = AutoModel m \<and>
           set (map fst st) = set (map fst (weights m)) \<and>
           (if loss_name cfg = ''dpo'' then
              \<exists>i m2. (r = Some (ReferenceModel i) \<or> r = Some (ModelWithDisabledAdapter i)) \<and>
                i < length (heap w) \<and>
                (heap w)[p := AutoModel (m\<lparr>weights := st\<rparr>)] ! i = AutoModel m2 \<and>
                heap w' = (heap w)[p := AutoModel (m\<lparr>weights := st\<rparr>),
                                   i := AutoModel (m2\<lparr>weights := st\<rparr>)] \<and>
                trace w' = trace w @
                  [TorchLoad (a @ ''/policy.pt''), Print (Loading_pretrained_weights s a mt),
                   LoadStateDict p, LoadStateDict i, Print Loaded_pretrained_weights]
            else heap w' = (heap w)[p := AutoModel (m\<lparr>weights := st\<rparr>)] \<and>
                trace w' = trace w @
                  [TorchLoad (a @ ''/policy.pt''), Print (Loading_pretrained_weights s a mt),
                   LoadStateDict p, Print Loaded_pretrained_weights])"
  using assms
  by (auto simp: restore_archive_def run_defs torch_load_def getitem_def
      load_state_dict_def reference_load_state_dict_def
      split: option.splits if_splits obj.splits reference.splits)

lemma prepare_steps:
  assumes "prepare e cfg w = (Inr (cfg', p', r'), w')"
  obtains w1 w2 w3 w4 p dt kw r where
    "validate_config cfg w = (Inr cfg', w1)"
    "announce e cfg' w1 = (Inr (), w2)"
    "build_policy e cfg' w2 = (Inr (p, dt, kw), w3)"
    "build_reference e cfg' p kw w3 = (Inr r, w4)"
    "restore_archive e cfg' p dt kw r w4 = (Inr (p', r'), w')"
  using assms unfolding prepare_def
  by (auto simp: bindE_eq_Inr return_def split: prod.splits)




lemma config_after_validation:
  "cfg' = cfg\<lparr>eval_every := x\<rparr> \<Longrightarrow>
   lora_enabled cfg' = lora_enabled cfg \<and> loss_name cfg' = loss_name cfg \<and>
   model_archive cfg' = model_archive cfg \<and> model_name_or_path cfg' = model_name_or_path cfg \<and>
   model_policy_dtype cfg' = model_policy_dtype cfg \<and>
   model_reference_dtype cfg' = model_reference_dtype cfg \<and>
   trainer cfg' = trainer cfg \<and> lora_config cfg' = lora_config cfg \<and>
   model_kwargs cfg' = model_kwargs cfg \<and> local_dirs cfg' = local_dirs cfg"
  by (simp add: lora_config_def model_kwargs_def)

lemma prepare_lora:
  assumes ok: "prepare e cfg w = (Inr (cfg', p', r'), w')" and lora: "lora_enabled cfg"
  shows "\<exists>sd. pretrained e (model_name_or_path cfg) = Some sd \<and>
     r' = (if loss_name cfg = ''dpo'' then Some (ModelWithDisabledAdapter p') else None) \<and>
     (case model_archive cfg of
        None \<Rightarrow>
          heap w' = heap w @
            [pretrained_model (model_name_or_path cfg) (model_policy_dtype cfg) (model_kwargs cfg) sd,
             PeftModel (length (heap w)) (lora_config cfg) True] \<and>
          p' = length (heap w) + 1
      | Some a \<Rightarrow>
          \<exists>ad ck s mt. adapter_dirs e a = Some ad \<and> files e (a @ ''/policy.pt'') = Some ck \<and>
            step_idx ck = Some s \<and> metrics ck = Some mt \<and>
            Print (Loading_pretrained_weights s a mt) \<in> set (trace w') \<and>
            heap w' = heap w @
              [pretrained_model (model_name_or_path cfg) (model_policy_dtype cfg) (model_kwargs cfg) sd,
               PeftModel (length (heap w)) (lora_config cfg) True,
               pretrained_model (model_name_or_path cfg) (model_policy_dtype cfg) (model_kwargs cfg) sd,
               PeftModel (length (heap w) + 2) ad True] \<and>
            p' = length (heap w) + 3)"
proof -
  from ok obtain w1 w2 w3 w4 p dt kw r where
    v: "validate_config cfg w = (Inr cfg', w1)" and
    an: "announce e cfg' w1 = (Inr (), w2)" and
    bp: "build_policy e cfg' w2 = (Inr (p, dt, kw), w3)" and
    br: "build_reference e cfg' p kw w3 = (Inr r, w4)" and
    ra: "restore_archive e cfg' p dt kw r w4 = (Inr (p', r'), w')"
    by (rule prepare_steps)
  note c = config_after_validation [OF conjunct1 [OF validate_config_Inr [OF v]]]
  have h2: "heap w2 = heap w"
    using validate_config_Inr [OF v] announce_Inr [OF an] by simp
  from build_policy_Inr [OF bp] c lora h2 obtain sd where
    sd: "pretrained e (model_name_or_path cfg) = Some sd" and
    dt: "dt = model_policy_dtype cfg" and kw: "kw = model_kwargs cfg" and
    h3: "heap w3 = heap w @
      [pretrained_model (model_name_or_path cfg) dt kw sd,
       PeftModel (length (heap w)) (lora_config cfg) True]" and
    p: "p = length (heap w) + 1"
    by auto
  from build_reference_Inr [OF br] c lora have
    r: "r = (if loss_name cfg = ''dpo'' then Some (ModelWithDisabledAdapter p) else None)" and
    h4: "heap w4 = heap w3"
    by (auto split: if_splits)
  show ?thesis
  proof (cases "model_archive cfg")
    case None
    then have "restore_archive e cfg' p dt kw r w4 = (Inr (p, r), w4)"
      using c by (simp add: restore_archive_None)
    with ra have "p' = p" "r' = r" "w' = w4" by simp_all
    with None sd dt kw h3 h4 p r show ?thesis by simp
  next
    case (Some a)
    from restore_archive_lora [OF ra, of a] Some c lora
    obtain ck s mt sd' ad where
      f: "files e (a @ ''/policy.pt'') = Some ck" "step_idx ck = Some s" "metrics ck = Some mt" and
      sd': "pretrained e (model_name_or_path cfg) = Some sd'" and
      ad: "adapter_dirs e a = Some ad" and
      h': "heap w' = heap w4 @ [pretrained_model (model_name_or_path cfg) dt kw sd',
                               PeftModel (length (heap w4)) ad True]" and
      t': "trace w' = trace w4 @
             [TorchLoad (a @ ''/policy.pt''), Print (Loading_pretrained_weights s a mt),
              FromPretrained (length (heap w4)) (model_name_or_path cfg)
                (get_local_dir e (local_dirs cfg)) dt kw,
              PeftFromPretrained (length (heap w4)) (length (heap w4) + 1) a,
              Print Loaded_pretrained_weights]" and
      p': "p' = length (heap w4) + 1" and
      r': "r' = (if loss_name cfg = ''dpo'' then Some (ModelWithDisabledAdapter p') else r)"
      by auto
    from sd sd' have "sd' = sd" by simp
    with Some sd dt kw h3 h4 h' t' p p' r r' f ad show ?thesis by simp
  qed
qed


lemma prepare_full:
  assumes ok: "prepare e cfg w = (Inr (cfg', p', r'), w')" and full: "\<not> lora_enabled cfg"
  shows "\<exists>sd st. pretrained e (model_name_or_path cfg) = Some sd \<and> p' = length (heap w) \<and>
     (case model_archive cfg of
        None \<Rightarrow> st = sd
      | Some a \<Rightarrow>
          \<exists>ck s mt. files e (a @ ''/policy.pt'') = Some ck \<and> step_idx ck = Some s \<and>
            metrics ck = Some mt \<and> state ck = Some st \<and>
            set (map fst st) = set (map fst sd) \<and>
            Print (Loading_pretrained_weights s a mt) \<in> set (trace w')) \<and>
     (if loss_name cfg = ''dpo'' then
        heap w' = heap w @
          [pretrained_model (model_name_or_path cfg) (model_policy_dtype cfg) (model_kwargs cfg) st,
           pretrained_model (model_name_or_path cfg) (model_reference_dtype cfg) (model_kwargs cfg) st] \<and>
        r' = Some (ReferenceModel (length (heap w) + 1))
      else
        heap w' = heap w @
          [pretrained_model (model_name_or_path cfg) (model_policy_dtype cfg) (model_kwargs cfg) st] \<and>
        r' = None)"
proof -
  from ok obtain w1 w2 w3 w4 p dt kw r where
    v: "validate_config cfg w = (Inr cfg', w1)" and
    an: "announce e cfg' w1 = (Inr (), w2)" and
    bp: "build_policy e cfg' w2 = (Inr (p, dt, kw), w3)" and
    br: "build_reference e cfg' p kw w3 = (Inr r, w4)" and
    ra: "restore_archive e cfg' p dt kw r w4 = (Inr (p', r'), w')"
    by (rule prepare_steps)
  note c = config_after_validation [OF conjunct1 [OF validate_config_Inr [OF v]]]
  let ?name = "model_name_or_path cfg"
  have h2: "heap w2 = heap w"
    using validate_config_Inr [OF v] announce_Inr [OF an] by simp
  from build_policy_Inr [OF bp] c full h2 obtain sd where
    sd: "pretrained e ?name = Some sd" and
    dt: "dt = model_policy_dtype cfg" and kw: "kw = model_kwargs cfg" and
    h3: "heap w3 = heap w @ [pretrained_model ?name dt kw sd]" and
    p: "p = length (heap w)"
    by auto
  have h4: "if loss_name cfg = ''dpo''
      then heap w4 = heap w @ [pretrained_model ?name dt kw sd,
                               pretrained_model ?name (model_reference_dtype cfg) kw sd] \<and>
           r = Some (ReferenceModel (length (heap w) + 1))
      else heap w4 = heap w @ [pretrained_model ?name dt kw sd] \<and> r = None"
    using build_reference_Inr [OF br] c full h3 sd by (auto split: if_splits)
  show ?thesis
  proof (cases "model_archive cfg")
    case None
    then have "restore_archive e cfg' p dt kw r w4 = (Inr (p, r), w4)"
      using c by (simp add: restore_archive_None)
    with ra have "p' = p" "r' = r" "w' = w4" by simp_all
    with None sd dt kw h4 p show ?thesis
      by (intro exI [of _ sd]) (simp split: if_splits)
  next
    case (Some a)
    from restore_archive_full [OF ra, of a] Some c full
    obtain ck s mt st m where
      f: "files e (a @ ''/policy.pt'') = Some ck" "step_idx ck = Some s" "metrics ck = Some mt"
        "state ck = Some st" and
      same: "p' = p" "r' = r" and
      m: "heap w4 ! p = AutoModel m" and
      keys: "set (map fst st) = set (map fst (weights m))" and
      rest: "if loss_name cfg = ''dpo'' then
              \<exists>i m2. (r = Some (ReferenceModel i) \<or> r = Some (ModelWithDisabledAdapter i)) \<and>
                i < length (heap w4) \<and>
                (heap w4)[p := AutoModel (m\<lparr>weights := st\<rparr>)] ! i = AutoModel m2 \<and>
                heap w' = (heap w4)[p := AutoModel (m\<lparr>weights := st\<rparr>),
                                   i := AutoModel (m2\<lparr>weights := st\<rparr>)] \<and>
                trace w' = trace w4 @
                  [TorchLoad (a @ ''/policy.pt''), Print (Loading_pretrained_weights s a mt),
                   LoadStateDict p, LoadStateDict i, Print Loaded_pretrained_weights]
            else heap w' = (heap w4)[p := AutoModel (m\<lparr>weights := st\<rparr>)] \<and>
                trace w' = trace w4 @
                  [TorchLoad (a @ ''/policy.pt''), Print (Loading_pretrained_weights s a mt),
                   LoadStateDict p, Print Loaded_pretrained_weights]"
      by auto
    have m_eq: "AutoModel m = pretrained_model ?name dt kw sd"
      using m h4 p by (auto split: if_splits simp: nth_append)
    then have m_st: "AutoModel (m\<lparr>weights := st\<rparr>) = pretrained_model ?name dt kw st"
      and m_w: "weights m = sd"
      by (auto simp: pretrained_model_def)
    have printed: "Print (Loading_pretrained_weights s a mt) \<in> set (trace w')"
      using rest by (auto split: if_splits)
    have heap': "if loss_name cfg = ''dpo'' then
        heap w' = heap w @ [pretrained_model ?name dt kw st,
                            pretrained_model ?name (model_reference_dtype cfg) kw st]
      else heap w' = heap w @ [pretrained_model ?name dt kw st]"
    proof (cases "loss_name cfg = ''dpo''")
      case True
      with h4 have h: "heap w4 = heap w @ [pretrained_model ?name dt kw sd,
          pretrained_model ?name (model_reference_dtype cfg) kw sd]"
        and r: "r = Some (ReferenceModel (length (heap w) + 1))" by simp_all
      from rest True r obtain m2 where
        m2: "(heap w4)[p := AutoModel (m\<lparr>weights := st\<rparr>)] ! (length (heap w) + 1) = AutoModel m2" and
        hw: "heap w' = (heap w4)[p := AutoModel (m\<lparr>weights := st\<rparr>),
                 length (heap w) + 1 := AutoModel (m2\<lparr>weights := st\<rparr>)]"
        by auto
      from m2 h p have "AutoModel m2 = pretrained_model ?name (model_reference_dtype cfg) kw sd"
        by (simp add: nth_append list_update_append)
      then have "AutoModel (m2\<lparr>weights := st\<rparr>)
          = pretrained_model ?name (model_reference_dtype cfg) kw st"
        by (auto simp: pretrained_model_def)
      with hw h p m_st True show ?thesis
        by (simp add: list_update_append)
    next
      case False
      with h4 rest p m_st show ?thesis by (simp add: list_update_append)
    qed
    from Some sd dt kw p same f keys m_w printed heap' h4 show ?thesis
      by (intro exI [of _ sd] exI [of _ st]) (simp split: if_splits)
  qed
qed

subsection \<open>The models handed to the workers\<close>

lemma prepare_preconditions:
  assumes "prepare e cfg w = (Inr (cfg', p', r'), w')"
  shows "missing_keys cfg = [] \<and> batch_size cfg \<noteq> 0 \<and>
         model_policy_dtype cfg \<in> set (torch_names e) \<and> heap w' \<noteq> []"
proof -
  from assms obtain w1 w2 w3 w4 p dt kw r where
    v: "validate_config cfg w = (Inr cfg', w1)" and
    bp: "build_policy e cfg' w2 = (Inr (p, dt, kw), w3)"
    by (rule prepare_steps)
  note c = config_after_validation [OF conjunct1 [OF validate_config_Inr [OF v]]]
  have "heap w' \<noteq> []"
  proof (cases "lora_enabled cfg")
    case True
    from prepare_lora [OF assms True] show ?thesis
      by (auto split: option.splits)
  next
    case False
    from prepare_full [OF assms False] show ?thesis
      by (auto split: if_splits)
  qed
  with validate_config_Inr [OF v] build_policy_Inr [OF bp] c show ?thesis
    by auto
qed

lemma prepare_lora_archive_run:
  assumes "missing_keys cfg = []" "batch_size cfg \<noteq> 0" "lora_enabled cfg"
    "model_archive cfg = Some a" "model_policy_dtype cfg \<in> set (torch_names e)"
    "pretrained e (model_name_or_path cfg) = Some sd"
    "files e (a @ ''/policy.pt'') = Some ck" "step_idx ck = Some s" "metrics ck = Some mt"
    "adapter_dirs e a = Some ad"
  shows "\<exists>c w''. prepare e cfg w =
           (Inr (c, length (heap w) + 3,
                 if loss_name cfg = ''dpo''
                 then Some (ModelWithDisabledAdapter (length (heap w) + 3)) else None), w'') \<and>
         heap w'' = heap w @
           [pretrained_model (model_name_or_path cfg) (model_policy_dtype cfg) (model_kwargs cfg) sd,
            PeftModel (length (heap w)) (lora_config cfg) True,
            pretrained_model (model_name_or_path cfg) (model_policy_dtype cfg) (model_kwargs cfg) sd,
            PeftModel (length (heap w) + 2) ad True]"
  using assms
  by (cases w)
    (simp add: prepare_def validate_config_def announce_def build_policy_def build_reference_def
      restore_archive_def run_defs getattr_torch_def from_pretrained_def disable_dropout_def
      get_peft_model_def peft_from_pretrained_def torch_load_def getitem_def
      pretrained_model_def lora_config_def model_kwargs_def nth_append)


lemma models_from_steps:
  assumes "validate_config cfg w = (Inr cfg', w1)"
    and "announce e cfg' w1 = (Inr (), w2)"
    and "build_policy e cfg' w2 = (Inr (p, dt, kw), w3)"
    and "build_reference e cfg' p kw w3 = (Inr r, w4)"
  shows "models_before_restore e cfg w = (Inr (cfg', p, dt, kw, r), w4)"
  using assms by (simp add: models_before_restore_def bindE_def return_def)

lemma prepare_after_models:
  "prepare e cfg =
     bindE (models_before_restore e cfg) (\<lambda>(cfg', policy, policy_dtype, kwargs, reference_model).
     bindE (restore_archive e cfg' policy policy_dtype kwargs reference_model)
       (\<lambda>(policy', reference_model'). return (cfg', policy', reference_model')))"
  by (rule ext)
    (simp add: prepare_def models_before_restore_def bindE_def return_def
      split: prod.splits sum.splits)


lemma is_auto_model_pretrained [simp]: "is_auto_model (pretrained_model name dt kw sd)"
  by (simp add: pretrained_model_def)

text \<open>
  Claim C4, amended. Whenever \<^verbatim>\<open>main\<close> gets as far as starting workers, the
  reference model it hands over follows the decision table: none when the loss is not
  \<^verbatim>\<open>dpo\<close>; the proxy over the very policy handed over when the loss is \<^verbatim>\<open>dpo\<close>
  and adapters are enabled, and building that proxy puts no object on the heap; a model
  of its own, distinct from the policy, loaded with the reference dtype and with dropout
  disabled, when the loss is \<^verbatim>\<open>dpo\<close> and adapters are disabled. The reference chosen
  at lines 135 to 145 is the one handed over, and one full model is loaded for the
  policy (and one for the reference when adapters are disabled and the loss is
  \<^verbatim>\<open>dpo\<close>), unless an archive is restored with adapters enabled: then a second full
  model is loaded, the policy is replaced, and with the loss \<^verbatim>\<open>dpo\<close> the reference
  is chosen a second time, as a new proxy over the new policy.
\<close>

theorem reference_follows_decision_table:
  assumes ok: "prepare e cfg w = (Inr (cfg', policy, reference_model), w')"
  shows "(loss_name cfg \<noteq> ''dpo'' \<longrightarrow> reference_model = None) \<and>
         (loss_name cfg = ''dpo'' \<and> lora_enabled cfg \<longrightarrow>
            reference_model = Some (ModelWithDisabledAdapter policy) \<and>
            (\<forall>p kw w0. \<exists>w1. build_reference e cfg p kw w0 =
                              (Inr (Some (ModelWithDisabledAdapter p)), w1) \<and>
                            heap w1 = heap w0)) \<and>
         (loss_name cfg = ''dpo'' \<and> \<not> lora_enabled cfg \<longrightarrow>
            (\<exists>i sd. reference_model = Some (ReferenceModel i) \<and> i \<noteq> policy \<and>
               i < length (heap w') \<and> policy < length (heap w') \<and>
               heap w' ! i = pretrained_model (model_name_or_path cfg)
                               (model_reference_dtype cfg) (model_kwargs cfg) sd)) \<and>
         (\<exists>p0 dt kw r0 w0.
            models_before_restore e cfg w = (Inr (cfg', p0, dt, kw, r0), w0) \<and>
            (model_archive cfg = None \<or> \<not> lora_enabled cfg \<longrightarrow>
               r0 = reference_model \<and> p0 = policy) \<and>
            (model_archive cfg \<noteq> None \<and> lora_enabled cfg \<longrightarrow>
               p0 \<noteq> policy \<and>
               (loss_name cfg = ''dpo'' \<longrightarrow>
                  r0 = Some (ModelWithDisabledAdapter p0) \<and> r0 \<noteq> reference_model))) \<and>
         length (filter is_auto_model (heap w')) =
           length (filter is_auto_model (heap w)) +
           (if lora_enabled cfg then (if model_archive cfg = None then 1 else 2)
            else (if loss_name cfg = ''dpo'' then 2 else 1))"
proof -
  from ok obtain w1 w2 w3 w4 p dt kw r where
    v: "validate_config cfg w = (Inr cfg', w1)" and
    an: "announce e cfg' w1 = (Inr (), w2)" and
    bp: "build_policy e cfg' w2 = (Inr (p, dt, kw), w3)" and
    br: "build_reference e cfg' p kw w3 = (Inr r, w4)" and
    ra: "restore_archive e cfg' p dt kw r w4 = (Inr (policy, reference_model), w')"
    by (rule prepare_steps)
  note c = config_after_validation [OF conjunct1 [OF validate_config_Inr [OF v]]]
  note before = models_from_steps [OF v an bp br]
  have h2: "heap w2 = heap w"
    using validate_config_Inr [OF v] announce_Inr [OF an] by simp
  show ?thesis
  proof (cases "lora_enabled cfg")
    case True
    from build_policy_Inr [OF bp] c True h2 have p: "p = length (heap w) + 1"
      and h3: "length (heap w3) = length (heap w) + 2"
      by auto
    from build_reference_Inr [OF br] c True have
      r: "r = (if loss_name cfg = ''dpo'' then Some (ModelWithDisabledAdapter p) else None)" and
      h4: "heap w4 = heap w3"
      by (auto split: if_splits)
    have table: "\<exists>w1. build_reference e cfg p' kw' w0 =
        (Inr (Some (ModelWithDisabledAdapter p')), w1) \<and> heap w1 = heap w0"
      if "loss_name cfg = ''dpo''" for p' kw' w0
      using that True by (simp add: build_reference_def run_defs)
    note pl = prepare_lora [OF ok True]
    show ?thesis
    proof (cases "model_archive cfg")
      case None
      then have "restore_archive e cfg' p dt kw r w4 = (Inr (p, r), w4)"
        using c by (simp add: restore_archive_None)
      with ra have same: "policy = p" "reference_model = r" by simp_all
      from pl None have cnt: "length (filter is_auto_model (heap w')) =
          length (filter is_auto_model (heap w)) + 1"
        by auto
      from before same have "\<exists>p0 dt kw r0 w0.
          models_before_restore e cfg w = (Inr (cfg', p0, dt, kw, r0), w0) \<and>
          r0 = reference_model \<and> p0 = policy"
        by blast
      with pl None True table cnt show ?thesis
        by auto
    next
      case (Some a)
      from restore_archive_lora [OF ra, of a] Some c True h4 h3 have
        p': "policy = length (heap w) + 3" and
        r': "reference_model =
          (if loss_name cfg = ''dpo'' then Some (ModelWithDisabledAdapter policy) else r)"
        by auto
      from pl Some have cnt: "length (filter is_auto_model (heap w')) =
          length (filter is_auto_model (heap w)) + 2"
        by auto
      from before p p' r r' have "\<exists>p0 dt kw r0 w0.
          models_before_restore e cfg w = (Inr (cfg', p0, dt, kw, r0), w0) \<and>
          p0 \<noteq> policy \<and>
          (loss_name cfg = ''dpo'' \<longrightarrow>
             r0 = Some (ModelWithDisabledAdapter p0) \<and> r0 \<noteq> reference_model)"
        by (intro exI [of _ p] exI [of _ dt] exI [of _ kw] exI [of _ r] exI [of _ w4]) simp
      with pl Some True table cnt show ?thesis
        by auto
    qed
  next
    case False
    have same: "policy = p \<and> reference_model = r"
    proof (cases "model_archive cfg")
      case None
      then have "restore_archive e cfg' p dt kw r w4 = (Inr (p, r), w4)"
        using c by (simp add: restore_archive_None)
      with ra show ?thesis by simp
    next
      case (Some a)
      from restore_archive_full [OF ra, of a] Some c False show ?thesis
        by auto
    qed
    with before have chosen: "\<exists>p0 dt kw r0 w0.
        models_before_restore e cfg w = (Inr (cfg', p0, dt, kw, r0), w0) \<and>
        r0 = reference_model \<and> p0 = policy"
      by blast
    from prepare_full [OF ok False] obtain sd st where
      pp: "policy = length (heap w)" and
      h: "if loss_name cfg = ''dpo'' then
          heap w' = heap w @
            [pretrained_model (model_name_or_path cfg) (model_policy_dtype cfg) (model_kwargs cfg) st,
             pretrained_model (model_name_or_path cfg) (model_reference_dtype cfg) (model_kwargs cfg) st] \<and>
          reference_model = Some (ReferenceModel (length (heap w) + 1))
        else
          heap w' = heap w @
            [pretrained_model (model_name_or_path cfg) (model_policy_dtype cfg) (model_kwargs cfg) st] \<and>
          reference_model = None"
      by auto
    show ?thesis
    proof (cases "loss_name cfg = ''dpo''")
      case True
      with h pp False chosen show ?thesis
        by (auto simp: nth_append intro!: exI [of _ st])
    next
      case dpo: False
      with h False chosen show ?thesis by auto
    qed
  qed
qed

text \<open>
  Claim C8. When an archive is configured and adapters are disabled, a run that gets as
  far as starting workers has read the step index and the metrics from
  \<^verbatim>\<open>policy.pt\<close> in the archive, and the policy holds the weights stored there; when
  the loss is \<^verbatim>\<open>dpo\<close> the reference is a model of its own that holds the same
  weights, otherwise there is no reference.
\<close>

theorem full_weights_restored:
  assumes "prepare e cfg w = (Inr (cfg', policy, reference_model), w')"
    and "model_archive cfg = Some a" and "\<not> lora_enabled cfg"
  shows "\<exists>ck s mt st. files e (a @ ''/policy.pt'') = Some ck \<and> step_idx ck = Some s \<and>
           metrics ck = Some mt \<and> state ck = Some st \<and>
           Print (Loading_pretrained_weights s a mt) \<in> set (trace w') \<and>
           policy < length (heap w') \<and>
           heap w' ! policy = pretrained_model (model_name_or_path cfg)
                                (model_policy_dtype cfg) (model_kwargs cfg) st \<and>
           (loss_name cfg = ''dpo'' \<longrightarrow>
              (\<exists>i. reference_model = Some (ReferenceModel i) \<and> i \<noteq> policy \<and>
                 i < length (heap w') \<and>
                 heap w' ! i = pretrained_model (model_name_or_path cfg)
                                 (model_reference_dtype cfg) (model_kwargs cfg) st)) \<and>
           (loss_name cfg \<noteq> ''dpo'' \<longrightarrow> reference_model = None)"
proof -
  from prepare_full [OF assms(1,3)] assms(2) obtain sd st ck s mt where
    p: "policy = length (heap w)" and
    f: "files e (a @ ''/policy.pt'') = Some ck" "step_idx ck = Some s" "metrics ck = Some mt"
       "state ck = Some st" "Print (Loading_pretrained_weights s a mt) \<in> set (trace w')" and
    h: "if loss_name cfg = ''dpo'' then
        heap w' = heap w @
          [pretrained_model (model_name_or_path cfg) (model_policy_dtype cfg) (model_kwargs cfg) st,
           pretrained_model (model_name_or_path cfg) (model_reference_dtype cfg) (model_kwargs cfg) st] \<and>
        reference_model = Some (ReferenceModel (length (heap w) + 1))
      else
        heap w' = heap w @
          [pretrained_model (model_name_or_path cfg) (model_policy_dtype cfg) (model_kwargs cfg) st] \<and>
        reference_model = None"
    by auto
  show ?thesis
  proof (cases "loss_name cfg = ''dpo''")
    case True
    with h p f show ?thesis
      by (intro exI [of _ ck] exI [of _ s] exI [of _ mt] exI [of _ st]) (simp add: nth_append)
  next
    case False
    with h p f show ?thesis
      by (intro exI [of _ ck] exI [of _ s] exI [of _ mt] exI [of _ st]) (simp add: nth_append)
  qed
qed

text \<open>
  Claim C10. When an archive is configured and adapters are enabled, a run that gets as
  far as starting workers has read the step index and the metrics from
  \<^verbatim>\<open>policy.pt\<close>; the adapter model built from the configuration's
  \<^verbatim>\<open>lora\<close> settings is still on the heap but is not the policy: the policy is a new
  adapter model, read from the archive directory, over a newly loaded base model, and
  the reference, when the loss is \<^verbatim>\<open>dpo\<close>, is the proxy over this policy. Changing
  the configuration's rank, alpha and dropout changes neither the policy nor its base.
\<close>

theorem adapter_restore_replaces_policy:
  assumes ok: "prepare e cfg w = (Inr (cfg', policy, reference_model), w')"
    and archive: "model_archive cfg = Some a" and lora: "lora_enabled cfg"
  shows "\<exists>ck s mt sd ad.
           files e (a @ ''/policy.pt'') = Some ck \<and> step_idx ck = Some s \<and>
           metrics ck = Some mt \<and>
           Print (Loading_pretrained_weights s a mt) \<in> set (trace w') \<and>
           pretrained e (model_name_or_path cfg) = Some sd \<and> adapter_dirs e a = Some ad \<and>
           heap w' ! (length (heap w) + 1) = PeftModel (length (heap w)) (lora_config cfg) True \<and>
           policy = length (heap w) + 3 \<and>
           heap w' ! policy = PeftModel (length (heap w) + 2) ad True \<and>
           heap w' ! (length (heap w) + 2) =
             pretrained_model (model_name_or_path cfg) (model_policy_dtype cfg) (model_kwargs cfg) sd \<and>
           reference_model =
             (if loss_name cfg = ''dpo'' then Some (ModelWithDisabledAdapter policy) else None) \<and>
           (\<forall>r alpha dropout. \<exists>c w''.
              prepare e (cfg\<lparr>lora_r := r, lora_alpha := alpha, lora_dropout := dropout\<rparr>) w
                = (Inr (c, policy, reference_model), w'') \<and>
              heap w'' ! policy = heap w' ! policy \<and>
              heap w'' ! (length (heap w) + 2) = heap w' ! (length (heap w) + 2))"
proof -
  let ?n = "length (heap w)"
  let ?base = "pretrained_model (model_name_or_path cfg) (model_policy_dtype cfg) (model_kwargs cfg)"
  from prepare_lora [OF ok lora] archive obtain sd ad ck s mt where
    sd: "pretrained e (model_name_or_path cfg) = Some sd" and
    r: "reference_model =
      (if loss_name cfg = ''dpo'' then Some (ModelWithDisabledAdapter policy) else None)" and
    ad: "adapter_dirs e a = Some ad" and
    f: "files e (a @ ''/policy.pt'') = Some ck" "step_idx ck = Some s" "metrics ck = Some mt" and
    pr: "Print (Loading_pretrained_weights s a mt) \<in> set (trace w')" and
    h: "heap w' = heap w @
      [?base sd, PeftModel ?n (lora_config cfg) True, ?base sd, PeftModel (?n + 2) ad True]" and
    p: "policy = ?n + 3"
    by auto
  note pre = prepare_preconditions [OF ok]
  have other: "\<exists>c w''.
      prepare e (cfg\<lparr>lora_r := r', lora_alpha := alpha, lora_dropout := dropout\<rparr>) w
        = (Inr (c, policy, reference_model), w'') \<and>
      heap w'' ! policy = heap w' ! policy \<and>
      heap w'' ! (?n + 2) = heap w' ! (?n + 2)" for r' alpha dropout
  proof -
    let ?cfg = "cfg\<lparr>lora_r := r', lora_alpha := alpha, lora_dropout := dropout\<rparr>"
    have "\<exists>c w''. prepare e ?cfg w =
           (Inr (c, ?n + 3,
                 if loss_name ?cfg = ''dpo''
                 then Some (ModelWithDisabledAdapter (?n + 3)) else None), w'') \<and>
         heap w'' = heap w @
           [pretrained_model (model_name_or_path ?cfg) (model_policy_dtype ?cfg) (model_kwargs ?cfg) sd,
            PeftModel ?n (lora_config ?cfg) True,
            pretrained_model (model_name_or_path ?cfg) (model_policy_dtype ?cfg) (model_kwargs ?cfg) sd,
            PeftModel (?n + 2) ad True]"
      using pre lora archive sd f ad
      by (intro prepare_lora_archive_run [where a = a and ck = ck and s = s and mt = mt]) simp_all
    then obtain c w'' where
      run: "prepare e ?cfg w = (Inr (c, policy, reference_model), w'')" and
      h'': "heap w'' = heap w @
           [pretrained_model (model_name_or_path ?cfg) (model_policy_dtype ?cfg) (model_kwargs ?cfg) sd,
            PeftModel ?n (lora_config ?cfg) True,
            pretrained_model (model_name_or_path ?cfg) (model_policy_dtype ?cfg) (model_kwargs ?cfg) sd,
            PeftModel (?n + 2) ad True]"
      using p r by auto
    from h h'' p have "heap w'' ! policy = heap w' ! policy \<and>
        heap w'' ! (?n + 2) = heap w' ! (?n + 2)"
      by (simp add: nth_append model_kwargs_def)
    with run show ?thesis by blast
  qed
  from h p have objs: "heap w' ! (?n + 1) = PeftModel ?n (lora_config cfg) True"
    "heap w' ! policy = PeftModel (?n + 2) ad True" "heap w' ! (?n + 2) = ?base sd"
    by (simp_all add: nth_append)
  from f pr sd ad objs p r other show ?thesis
    by blast
qed

subsection \<open>Starting the workers\<close>









subsection \<open>The concrete run\<close>

text \<open>The theorems above, applied to runs in the example environment.\<close>

lemmas eval_defs = main_def prepare_def validate_config_def announce_def build_policy_def
  build_reference_def restore_archive_def launch_def run_defs getattr_torch_def
  getattr_trainers_def from_pretrained_def disable_dropout_def get_peft_model_def
  peft_from_pretrained_def torch_load_def getitem_def load_state_dict_def
  reference_load_state_dict_def worker_main_def model_kwargs_def lora_config_def
  pretrained_model_def example_env_def example_config_def world0_def

lemma succeeds_cases:
  assumes "\<exists>x. fst res = Inr x"
  obtains c p r where "res = (Inr (c, p, r), snd res)"
  using assms by (cases res) auto

theorem reference_follows_decision_table_witness:
  "(\<exists>c p i sd. fst (prepare example_env example_config world0) = Inr (c, p, Some (ReferenceModel i)) \<and>
      i \<noteq> p \<and>
      heap (snd (prepare example_env example_config world0)) ! i
        = pretrained_model ''gpt2'' ''float16'' (Some ''balanced'') sd) \<and>
   (\<exists>c p. fst (prepare example_env (example_config\<lparr>lora_enabled := True\<rparr>) world0)
      = Inr (c, p, Some (ModelWithDisabledAdapter p))) \<and>
   (\<exists>c p. fst (prepare example_env (example_config\<lparr>loss_name := ''sft''\<rparr>) world0)
      = Inr (c, p, None)) \<and>
   (\<exists>c p p0 dt kw w0.
      fst (prepare example_env
             (example_config\<lparr>lora_enabled := True, model_archive := Some ''ckpt''\<rparr>) world0)
        = Inr (c, p, Some (ModelWithDisabledAdapter p)) \<and>
      models_before_restore example_env
          (example_config\<lparr>lora_enabled := True, model_archive := Some ''ckpt''\<rparr>) world0
        = (Inr (c, p0, dt, kw, Some (ModelWithDisabledAdapter p0)), w0) \<and>
      p0 \<noteq> p)"
proof -
  let ?lora = "example_config\<lparr>lora_enabled := True\<rparr>"
  let ?sft = "example_config\<lparr>loss_name := ''sft''\<rparr>"
  let ?both = "example_config\<lparr>lora_enabled := True, model_archive := Some ''ckpt''\<rparr>"
  have "\<exists>x. fst (prepare example_env example_config world0) = Inr x"
    by (simp add: eval_defs)
  then obtain c1 p1 r1 where run1: "prepare example_env example_config world0
      = (Inr (c1, p1, r1), snd (prepare example_env example_config world0))"
    by (rule succeeds_cases)
  have "\<exists>x. fst (prepare example_env ?lora world0) = Inr x"
    by (simp add: eval_defs)
  then obtain c2 p2 r2 where run2: "prepare example_env ?lora world0
      = (Inr (c2, p2, r2), snd (prepare example_env ?lora world0))"
    by (rule succeeds_cases)
  have "\<exists>x. fst (prepare example_env ?sft world0) = Inr x"
    by (simp add: eval_defs)
  then obtain c3 p3 r3 where run3: "prepare example_env ?sft world0
      = (Inr (c3, p3, r3), snd (prepare example_env ?sft world0))"
    by (rule succeeds_cases)
  have "\<exists>x. fst (prepare example_env ?both world0) = Inr x"
    by (simp add: eval_defs)
  then obtain c4 p4 r4 where run4: "prepare example_env ?both world0
      = (Inr (c4, p4, r4), snd (prepare example_env ?both world0))"
    by (rule succeeds_cases)
  have f1: "loss_name example_config = ''dpo''" "\<not> lora_enabled example_config"
    "model_name_or_path example_config = ''gpt2''"
    "model_reference_dtype example_config = ''float16''"
    "model_kwargs example_config = Some ''balanced''"
    by (simp_all add: example_config_def model_kwargs_def)
  have f2: "loss_name ?lora = ''dpo''" "lora_enabled ?lora"
    by (simp_all add: example_config_def)
  have f3: "loss_name ?sft \<noteq> ''dpo''"
    by (simp add: example_config_def)
  have f4: "loss_name ?both = ''dpo''" "lora_enabled ?both" "model_archive ?both \<noteq> None"
    by (simp_all add: example_config_def)
  have "loss_name example_config = ''dpo'' \<and> \<not> lora_enabled example_config \<longrightarrow>
      (\<exists>i sd. r1 = Some (ReferenceModel i) \<and> i \<noteq> p1 \<and>
         i < length (heap (snd (prepare example_env example_config world0))) \<and>
         p1 < length (heap (snd (prepare example_env example_config world0))) \<and>
         heap (snd (prepare example_env example_config world0)) ! i
           = pretrained_model (model_name_or_path example_config)
               (model_reference_dtype example_config) (model_kwargs example_config) sd)"
    using reference_follows_decision_table [OF run1] by (elim conjE)
  with f1 have 1: "\<exists>i sd. r1 = Some (ReferenceModel i) \<and> i \<noteq> p1 \<and>
      heap (snd (prepare example_env example_config world0)) ! i
        = pretrained_model ''gpt2'' ''float16'' (Some ''balanced'') sd"
    by auto
  have "loss_name ?lora = ''dpo'' \<and> lora_enabled ?lora \<longrightarrow>
      r2 = Some (ModelWithDisabledAdapter p2) \<and>
      (\<forall>p kw w0. \<exists>w1. build_reference example_env ?lora p kw w0 =
                        (Inr (Some (ModelWithDisabledAdapter p)), w1) \<and> heap w1 = heap w0)"
    using reference_follows_decision_table [OF run2] by (elim conjE)
  with f2 have 2: "r2 = Some (ModelWithDisabledAdapter p2)"
    by simp
  have "loss_name ?sft \<noteq> ''dpo'' \<longrightarrow> r3 = None"
    using reference_follows_decision_table [OF run3] by (elim conjE)
  with f3 have 3: "r3 = None"
    by simp
  have "loss_name ?both = ''dpo'' \<and> lora_enabled ?both \<longrightarrow>
      r4 = Some (ModelWithDisabledAdapter p4) \<and>
      (\<forall>p kw w0. \<exists>w1. build_reference example_env ?both p kw w0 =
                        (Inr (Some (ModelWithDisabledAdapter p)), w1) \<and> heap w1 = heap w0)"
    using reference_follows_decision_table [OF run4] by (elim conjE)
  with f4 have 4: "r4 = Some (ModelWithDisabledAdapter p4)"
    by simp
  have "\<exists>p0 dt kw r0 w0.
      models_before_restore example_env ?both world0 = (Inr (c4, p0, dt, kw, r0), w0) \<and>
      (model_archive ?both = None \<or> \<not> lora_enabled ?both \<longrightarrow> r0 = r4 \<and> p0 = p4) \<and>
      (model_archive ?both \<noteq> None \<and> lora_enabled ?both \<longrightarrow>
         p0 \<noteq> p4 \<and>
         (loss_name ?both = ''dpo'' \<longrightarrow> r0 = Some (ModelWithDisabledAdapter p0) \<and> r0 \<noteq> r4))"
    using reference_follows_decision_table [OF run4] by (elim conjE)
  with f4 obtain p0 dt kw w0 where 5:
    "models_before_restore example_env ?both world0
       = (Inr (c4, p0, dt, kw, Some (ModelWithDisabledAdapter p0)), w0)" "p0 \<noteq> p4"
    by auto
  from run1 1 have "\<exists>c p i sd. fst (prepare example_env example_config world0)
      = Inr (c, p, Some (ReferenceModel i)) \<and> i \<noteq> p \<and>
      heap (snd (prepare example_env example_config world0)) ! i
        = pretrained_model ''gpt2'' ''float16'' (Some ''balanced'') sd"
    by (metis fst_conv)
  moreover from run2 2 have "\<exists>c p. fst (prepare example_env ?lora world0)
      = Inr (c, p, Some (ModelWithDisabledAdapter p))"
    by (metis fst_conv)
  moreover from run3 3 have "\<exists>c p. fst (prepare example_env ?sft world0) = Inr (c, p, None)"
    by (metis fst_conv)
  moreover from run4 4 5 have "\<exists>c p p0 dt kw w0.
      fst (prepare example_env ?both world0) = Inr (c, p, Some (ModelWithDisabledAdapter p)) \<and>
      models_before_restore example_env ?both world0
        = (Inr (c, p0, dt, kw, Some (ModelWithDisabledAdapter p0)), w0) \<and>
      p0 \<noteq> p"
    by (metis fst_conv)
  ultimately show ?thesis by (intro conjI)
qed

text \<open>
  Claim C4, as stated, fails when an archive is restored with adapters enabled and the
  loss is \<^verbatim>\<open>dpo\<close>: the reference chosen at lines 135 to 145 is the proxy over
  object 1, the reference handed to the workers is another proxy, over object 3, and
  two full models have been loaded.
\<close>

theorem reference_chosen_twice_with_second_model:
  "loss_name (example_config\<lparr>lora_enabled := True, model_archive := Some ''ckpt''\<rparr>) = ''dpo'' \<and>
   lora_enabled (example_config\<lparr>lora_enabled := True, model_archive := Some ''ckpt''\<rparr>) \<and>
   fst (models_before_restore example_env
          (example_config\<lparr>lora_enabled := True, model_archive := Some ''ckpt''\<rparr>) world0)
     = Inr (example_config\<lparr>lora_enabled := True, model_archive := Some ''ckpt'',
                            eval_every := 90\<rparr>,
            1, ''float32'', Some ''balanced'', Some (ModelWithDisabledAdapter 1)) \<and>
   fst (prepare example_env
          (example_config\<lparr>lora_enabled := True, model_archive := Some ''ckpt''\<rparr>) world0)
     = Inr (example_config\<lparr>lora_enabled := True, model_archive := Some ''ckpt'',
                            eval_every := 90\<rparr>,
            3, Some (ModelWithDisabledAdapter 3)) \<and>
   length (filter is_auto_model
     (heap (snd (prepare example_env
          (example_config\<lparr>lora_enabled := True, model_archive := Some ''ckpt''\<rparr>) world0)))) = 2"
  by (simp add: eval_defs models_before_restore_def)

theorem full_weights_restored_witness:
  "model_archive (example_config\<lparr>model_archive := Some ''ckpt''\<rparr>) = Some ''ckpt'' \<and>
   \<not> lora_enabled (example_config\<lparr>model_archive := Some ''ckpt''\<rparr>) \<and>
   (\<exists>c p i. fst (prepare example_env (example_config\<lparr>model_archive := Some ''ckpt''\<rparr>) world0)
        = Inr (c, p, Some (ReferenceModel i)) \<and> i \<noteq> p \<and>
      heap (snd (prepare example_env (example_config\<lparr>model_archive := Some ''ckpt''\<rparr>) world0)) ! p
        = pretrained_model ''gpt2'' ''float32'' (Some ''balanced'')
            [(''wte'', [5, 6]), (''lm_head'', [7])] \<and>
      heap (snd (prepare example_env (example_config\<lparr>model_archive := Some ''ckpt''\<rparr>) world0)) ! i
        = pretrained_model ''gpt2'' ''float16'' (Some ''balanced'')
            [(''wte'', [5, 6]), (''lm_head'', [7])]) \<and>
   Print (Loading_pretrained_weights 100 ''ckpt'' [(''loss'', 1)])
     \<in> set (trace (snd (prepare example_env (example_config\<lparr>model_archive := Some ''ckpt''\<rparr>) world0)))"
proof -
  let ?cfg = "example_config\<lparr>model_archive := Some ''ckpt''\<rparr>"
  let ?w = "snd (prepare example_env ?cfg world0)"
  let ?st = "[(''wte'', [5, 6]), (''lm_head'', [7 :: int])]"
  have a: "model_archive ?cfg = Some ''ckpt''" and l: "\<not> lora_enabled ?cfg"
    by (simp_all add: example_config_def)
  have c: "loss_name ?cfg = ''dpo''" "model_name_or_path ?cfg = ''gpt2''"
    "model_policy_dtype ?cfg = ''float32''" "model_reference_dtype ?cfg = ''float16''"
    "model_kwargs ?cfg = Some ''balanced''"
    by (simp_all add: example_config_def model_kwargs_def)
  have f: "files example_env (''ckpt'' @ ''/policy.pt'')
      = Some \<lparr>step_idx = Some 100, metrics = Some [(''loss'', 1)], state = Some ?st\<rparr>"
    by (simp add: example_env_def)
  have "\<exists>x. fst (prepare example_env ?cfg world0) = Inr x"
    by (simp add: eval_defs)
  then obtain c p r where run: "prepare example_env ?cfg world0 = (Inr (c, p, r), ?w)"
    by (rule succeeds_cases)
  from full_weights_restored [OF run a l] obtain ck s mt st i where
    "files example_env (''ckpt'' @ ''/policy.pt'') = Some ck" "step_idx ck = Some s"
    "metrics ck = Some mt" "state ck = Some st"
    "Print (Loading_pretrained_weights s ''ckpt'' mt) \<in> set (trace ?w)"
    "heap ?w ! p = pretrained_model ''gpt2'' ''float32'' (Some ''balanced'') st"
    "r = Some (ReferenceModel i)" "i \<noteq> p"
    "heap ?w ! i = pretrained_model ''gpt2'' ''float16'' (Some ''balanced'') st"
    unfolding c by auto
  with f have "r = Some (ReferenceModel i) \<and> i \<noteq> p \<and>
      heap ?w ! p = pretrained_model ''gpt2'' ''float32'' (Some ''balanced'') ?st \<and>
      heap ?w ! i = pretrained_model ''gpt2'' ''float16'' (Some ''balanced'') ?st \<and>
      Print (Loading_pretrained_weights 100 ''ckpt'' [(''loss'', 1)]) \<in> set (trace ?w)"
    by auto
  with run a l show ?thesis
    by (metis fst_conv)
qed

theorem adapter_restore_replaces_policy_witness:
  "model_archive (example_config\<lparr>lora_enabled := True, model_archive := Some ''ckpt''\<rparr>)
     = Some ''ckpt'' \<and>
   lora_enabled (example_config\<lparr>lora_enabled := True, model_archive := Some ''ckpt''\<rparr>) \<and>
   (\<exists>c p. fst (prepare example_env
                 (example_config\<lparr>lora_enabled := True, model_archive := Some ''ckpt''\<rparr>) world0)
        = Inr (c, p, Some (ModelWithDisabledAdapter p)) \<and> p = 3 \<and>
      heap (snd (prepare example_env
                 (example_config\<lparr>lora_enabled := True, model_archive := Some ''ckpt''\<rparr>) world0)) ! p
        = PeftModel 2 (Adapter 4 8 0 ''none'' ''CAUSAL_LM'' [''q_proj'', ''v_proj'']
                         (Some [(''lora_A'', [9])])) True \<and>
      (\<exists>c' w''. prepare example_env
                 (example_config\<lparr>lora_enabled := True, model_archive := Some ''ckpt'',
                    lora_r := 64, lora_alpha := 128, lora_dropout := 1 / 2\<rparr>) world0
         = (Inr (c', p, Some (ModelWithDisabledAdapter p)), w'') \<and>
         heap w'' ! p = PeftModel 2 (Adapter 4 8 0 ''none'' ''CAUSAL_LM'' [''q_proj'', ''v_proj'']
                         (Some [(''lora_A'', [9])])) True))"
proof -
  let ?cfg = "example_config\<lparr>lora_enabled := True, model_archive := Some ''ckpt''\<rparr>"
  let ?w = "snd (prepare example_env ?cfg world0)"
  let ?ad = "Adapter 4 8 0 ''none'' ''CAUSAL_LM'' [''q_proj'', ''v_proj''] (Some [(''lora_A'', [9])])"
  have a: "model_archive ?cfg = Some ''ckpt''" and l: "lora_enabled ?cfg"
    by (simp_all add: example_config_def)
  have c: "loss_name ?cfg = ''dpo''" "heap world0 = []"
    by (simp_all add: example_config_def world0_def)
  have d: "adapter_dirs example_env ''ckpt'' = Some ?ad"
    by (simp add: example_env_def)
  have "\<exists>x. fst (prepare example_env ?cfg world0) = Inr x"
    by (simp add: eval_defs)
  then obtain c p r where run: "prepare example_env ?cfg world0 = (Inr (c, p, r), ?w)"
    by (rule succeeds_cases)
  from adapter_restore_replaces_policy [OF run a l] obtain ad where
    ad: "adapter_dirs example_env ''ckpt'' = Some ad" and
    p: "p = length (heap world0) + 3" and
    hp: "heap ?w ! p = PeftModel (length (heap world0) + 2) ad True" and
    r: "r = (if loss_name ?cfg = ''dpo'' then Some (ModelWithDisabledAdapter p) else None)" and
    other: "\<forall>r' alpha dropout. \<exists>c' w''.
        prepare example_env (?cfg\<lparr>lora_r := r', lora_alpha := alpha, lora_dropout := dropout\<rparr>) world0
          = (Inr (c', p, r), w'') \<and> heap w'' ! p = heap ?w ! p \<and>
        heap w'' ! (length (heap world0) + 2) = heap ?w ! (length (heap world0) + 2)"
    by blast
  from ad d have ad_eq: "ad = ?ad" by simp
  from other obtain c' w'' where
    o: "prepare example_env (?cfg\<lparr>lora_r := 64, lora_alpha := 128, lora_dropout := 1 / 2\<rparr>) world0
          = (Inr (c', p, r), w'')" "heap w'' ! p = heap ?w ! p"
    by blast
  have facts: "p = 3" "r = Some (ModelWithDisabledAdapter p)"
    "heap ?w ! p = PeftModel 2 ?ad True"
    using p r hp ad_eq c by simp_all
  with o have "\<exists>c' w''. prepare example_env
       (?cfg\<lparr>lora_r := 64, lora_alpha := 128, lora_dropout := 1 / 2\<rparr>) world0
       = (Inr (c', p, Some (ModelWithDisabledAdapter p)), w'') \<and> heap w'' ! p = PeftModel 2 ?ad True"
    by auto
  with run a l facts show ?thesis
    by (metis fst_conv)
qed




end
